theory Spec2Isabelle
  imports Complex_Main "HOL-Library.Char_ord" "HOL-Library.List_Lexorder" "HOL-Library.Multiset"
begin

section \<open>Python values and errors\<close>

text \<open>
  Exceptions of the Python source are values. A \<open>ValueError\<close> records which message
  CPython writes and the text that message reports:
  \<^item> \<open>NoMatch s\<close>: \<open>time data 's' does not match format '%Y%j'\<close>;
  \<^item> \<open>UnconvertedData r\<close>: \<open>unconverted data remains: r\<close>;
  \<^item> \<open>YearOutOfRange y\<close>: \<open>year y is out of range\<close>;
  \<^item> \<open>InvalidLiteral s\<close>: \<open>invalid literal for int() with base 10: 's'\<close>;
  \<^item> \<open>ExceedsDigitLimit n\<close>: \<open>Exceeds the limit (4300 digits) for integer string
    conversion: value has n digits\<close>;
  \<^item> \<open>CannotConvertNaN\<close>: \<open>cannot convert float NaN to integer\<close>;
  \<^item> \<open>Unparsed s\<close>: an external parser refused the string \<open>s\<close>.

  \<open>KeyError\<close> carries the missing key. \<open>CMRServerUnreachable\<close> is the exception
  class the query module raises; it wraps the exception it replaces.
  \<open>KeyboardInterrupt\<close> and \<open>SystemExit\<close> derive from \<open>BaseException\<close> only, every
  other constructor is an \<open>Exception\<close>.
\<close>

datatype value_error =
    NoMatch string
  | UnconvertedData string
  | YearOutOfRange nat
  | InvalidLiteral string
  | ExceedsDigitLimit nat
  | CannotConvertNaN
  | Unparsed string

datatype py_error =
    IndexError
  | ValueError value_error
  | KeyError string
  | TypeError
  | AttributeError
  | OverflowError
  | FileNotFoundError string
  | OtherException string
  | KeyboardInterrupt
  | SystemExit
  | CMRServerUnreachable py_error

fun is_Exception :: "py_error \<Rightarrow> bool" where
  "is_Exception KeyboardInterrupt = False"
| "is_Exception SystemExit = False"
| "is_Exception _ = True"

section \<open>Strings\<close>

text \<open>
  A \<open>string\<close> is a list of characters with code points below 256; a Python string
  with a character beyond that range has no counterpart here.
\<close>

text \<open>\<open>str.split(sep)\<close> for a one-character separator: always at least one piece.\<close>

fun split_on :: "char \<Rightarrow> string \<Rightarrow> string list" where
  "split_on c [] = [[]]"
| "split_on c (x # xs) =
     (if x = c then [] # split_on c xs
      else (case split_on c xs of [] \<Rightarrow> [[x]] | y # ys \<Rightarrow> (x # y) # ys))"

text \<open>\<open>os.path.basename\<close> (posixpath): everything after the last slash.\<close>

definition basename :: "string \<Rightarrow> string" where
  "basename p = rev (takeWhile (\<lambda>c. c \<noteq> CHR ''/'') (rev p))"

text \<open>Python list indexing with a non-negative index.\<close>

definition py_index :: "'a list \<Rightarrow> nat \<Rightarrow> py_error + 'a" where
  "py_index xs i = (if i < length xs then Inr (xs ! i) else Inl IndexError)"

definition is_digit :: "char \<Rightarrow> bool" where
  "is_digit c = (CHR ''0'' \<le> c \<and> c \<le> CHR ''9'')"

definition digit_val :: "char \<Rightarrow> nat" where
  "digit_val c = of_char c - 48"

definition digit_char :: "nat \<Rightarrow> char" where
  "digit_char n = ''0123456789'' ! n"

definition nat_of_digits :: "string \<Rightarrow> nat" where
  "nat_of_digits s = foldl (\<lambda>acc c. 10 * acc + digit_val c) 0 s"

text \<open>The decimal digits of a number, without padding.\<close>

fun dec :: "nat \<Rightarrow> string" where
  "dec n = (if n < 10 then [digit_char n] else dec (n div 10) @ [digit_char (n mod 10)])"

declare dec.simps [simp del]

text \<open>Zero padding on the left to a minimum width, as the format \<open>%0wd\<close> does.\<close>

definition zfill :: "nat \<Rightarrow> string \<Rightarrow> string" where
  "zfill w s = replicate (w - length s) CHR ''0'' @ s"

section \<open>Calendar dates\<close>

record date =
  year :: nat
  month :: nat
  day :: nat

definition is_leap :: "nat \<Rightarrow> bool" where
  "is_leap y = (y mod 4 = 0 \<and> (y mod 100 \<noteq> 0 \<or> y mod 400 = 0))"

definition month_lengths :: "nat \<Rightarrow> nat list" where
  "month_lengths y = [31, if is_leap y then 29 else 28, 31, 30, 31, 30, 31, 31, 30, 31, 30, 31]"

definition days_in_year :: "nat \<Rightarrow> nat" where
  "days_in_year y = (if is_leap y then 366 else 365)"

text \<open>The dates \<open>datetime.date\<close> can hold: years 1 to 9999 of the proleptic Gregorian calendar.\<close>

definition valid_date :: "date \<Rightarrow> bool" where
  "valid_date d =
     (1 \<le> year d \<and> year d \<le> 9999 \<and> 1 \<le> month d \<and> month d \<le> 12 \<and>
      1 \<le> day d \<and> day d \<le> month_lengths (year d) ! (month d - 1))"

text \<open>Day of the year, \<open>%j\<close>: 1 for the first of January.\<close>

definition yday :: "date \<Rightarrow> nat" where
  "yday d = sum_list (take (month d - 1) (month_lengths (year d))) + day d"

text \<open>Month \<open>m\<close> onwards has the lengths \<open>ns\<close>; find the month and day of the \<open>j\<close>-th day.\<close>

fun locate :: "nat list \<Rightarrow> nat \<Rightarrow> nat \<Rightarrow> (nat \<times> nat) option" where
  "locate [] m j = None"
| "locate (n # ns) m j = (if j \<le> n then Some (m, j) else locate ns (Suc m) (j - n))"

text \<open>
  \<open>_strptime\<close> turns a year and a day of the year into a date through
  \<open>date.fromordinal(julian - 1 + date(year, 1, 1).toordinal())\<close>: day 366 of a
  common year is the first of January of the next year, and a year outside 1..9999
  raises \<open>ValueError\<close>.
\<close>

definition date_of_yday :: "nat \<Rightarrow> nat \<Rightarrow> py_error + date" where
  "date_of_yday y j =
     (if y < 1 then Inl (ValueError (YearOutOfRange y))
      else (case locate (month_lengths y) 1 j of
              Some (m, d) \<Rightarrow> Inr \<lparr>year = y, month = m, day = d\<rparr>
            | None \<Rightarrow>
                if y + 1 \<le> 9999
                then Inr \<lparr>year = y + 1, month = 1, day = j - days_in_year y\<rparr>
                else Inl (ValueError (YearOutOfRange (y + 1)))))"

text \<open>
  The group \<open>%j\<close> of the regular expression \<open>_strptime\<close> compiles:
  \<open>36[0-6]|3[0-5]\d|[1-2]\d\d|0[1-9]\d|00[1-9]|[1-9]\d|0[1-9]|[1-9]\<close>. The first
  alternative that matches at the start of the string wins: three digits between 001
  and 366, else two digits other than 00, else one digit other than 0. The result is
  the number of characters matched, 0 when none does.
\<close>

definition match_j :: "string \<Rightarrow> nat" where
  "match_j s =
     (if 3 \<le> length s \<and> list_all is_digit (take 3 s) \<and>
         1 \<le> nat_of_digits (take 3 s) \<and> nat_of_digits (take 3 s) \<le> 366 then 3
      else if 2 \<le> length s \<and> list_all is_digit (take 2 s) \<and> 1 \<le> nat_of_digits (take 2 s) then 2
      else if 1 \<le> length s \<and> list_all is_digit (take 1 s) \<and> 1 \<le> nat_of_digits (take 1 s) then 1
      else 0)"

text \<open>
  \<open>datetime.strptime(s, "%Y%j")\<close>: the expression is four digits of year followed by
  the group \<open>%j\<close>, matched at the start of the string. No match raises the
  \<open>ValueError\<close> that quotes the string; a match that leaves characters over raises
  the one that reports the rest; otherwise the year and the day of the year make the
  date.
\<close>

definition strptime_Yj :: "string \<Rightarrow> py_error + date" where
  "strptime_Yj s =
     (if 4 \<le> length s \<and> list_all is_digit (take 4 s) \<and> 0 < match_j (drop 4 s)
      then (if 4 + match_j (drop 4 s) < length s
            then Inl (ValueError (UnconvertedData (drop (4 + match_j (drop 4 s)) s)))
            else date_of_yday (nat_of_digits (take 4 s)) (nat_of_digits (drop 4 s)))
      else Inl (ValueError (NoMatch s)))"

section \<open>The built-in \<open>int\<close> on strings\<close>

text \<open>
  The white space \<open>int\<close> strips from both ends: the ASCII characters tab, line feed,
  vertical tab, form feed, carriage return and space, and the two characters beyond
  ASCII that are white space, U+0085 and U+00A0.
\<close>

definition is_space :: "char \<Rightarrow> bool" where
  "is_space c =
     (c \<in> set [CHR 0x20, CHR 0x09, CHR 0x0A, CHR 0x0B, CHR 0x0C, CHR 0x0D, CHR 0x85, CHR 0xA0])"

definition strip :: "string \<Rightarrow> string" where
  "strip s = rev (dropWhile is_space (rev (dropWhile is_space s)))"

text \<open>Digits, with single underscores allowed between two digits.\<close>

fun digit_groups :: "string \<Rightarrow> bool" where
  "digit_groups [] = False"
| "digit_groups [c] = is_digit c"
| "digit_groups (c # u # cs) =
     (is_digit c \<and> (if u = CHR ''_'' then digit_groups cs else digit_groups (u # cs)))"

definition unsigned_part :: "string \<Rightarrow> bool \<times> string" where
  "unsigned_part t =
     (case t of
        [] \<Rightarrow> (False, [])
      | c # r \<Rightarrow> if c = CHR ''-'' then (True, r)
                else if c = CHR ''+'' then (False, r) else (False, t))"

text \<open>\<open>sys.int_info.default_max_str_digits\<close>\<close>

definition max_str_digits :: nat where
  "max_str_digits = 4300"

text \<open>
  \<open>int(s)\<close> in base ten. After the white space and an optional sign, the run of
  digits and underscores is scanned; a malformed run is an invalid literal; a run of
  more digits than the default limit allows is refused (the message
  then gives the number of digits, not the string); anything left after the run is
  an invalid literal.
\<close>

definition py_int :: "string \<Rightarrow> py_error + int" where
  "py_int s =
     (case unsigned_part (strip s) of
        (neg, body) \<Rightarrow>
          let run = takeWhile (\<lambda>c. is_digit c \<or> c = CHR ''_'') body in
          if \<not> digit_groups run then Inl (ValueError (InvalidLiteral s))
          else if max_str_digits < length (filter is_digit run)
          then Inl (ValueError (ExceedsDigitLimit (length (filter is_digit run))))
          else if run \<noteq> body then Inl (ValueError (InvalidLiteral s))
          else Inr ((if neg then - 1 else 1) * int (nat_of_digits (filter is_digit run))))"

section \<open>Filename codec (VIIRS_filename_parsing.py)\<close>

definition parse_VIIRS_product :: "string \<Rightarrow> py_error + string" where
  "parse_VIIRS_product filename = py_index (split_on CHR ''.'' (basename filename)) 0"

definition parse_VIIRS_date :: "string \<Rightarrow> py_error + date" where
  "parse_VIIRS_date filename =
     (case py_index (split_on CHR ''.'' (basename filename)) 1 of
        Inl e \<Rightarrow> Inl e
      | Inr tok \<Rightarrow> strptime_Yj (drop 1 tok))"

definition parse_VIIRS_tile :: "string \<Rightarrow> py_error + string" where
  "parse_VIIRS_tile filename = py_index (split_on CHR ''.'' (basename filename)) 2"

definition parse_VIIRS_build :: "string \<Rightarrow> py_error + int" where
  "parse_VIIRS_build filename =
     (case py_index (split_on CHR ''.'' (basename filename)) 3 of
        Inl e \<Rightarrow> Inl e
      | Inr tok \<Rightarrow> py_int tok)"


section \<open>Building a granule filename\<close>

text \<open>
  Modelled from the spec: the repository has no function that builds a filename, only
  the four parsers. The spec's grammar is \<open>PRODUCT.AYYYYDDD.TILE.BUILD\<close>: the year on
  four digits and the day of the year on three; its example
  \<open>VNP.A2020123.h10v05.001.h5\<close> writes the build on three digits. A product or tile
  token holds neither a dot nor a slash.
\<close>

definition format_Yj :: "date \<Rightarrow> string" where
  "format_Yj d = zfill 4 (dec (year d)) @ zfill 3 (dec (yday d))"

definition make_filename :: "string \<Rightarrow> date \<Rightarrow> string \<Rightarrow> nat \<Rightarrow> string" where
  "make_filename product d tile build =
     product @ CHR ''.'' # (CHR ''A'' # format_Yj d) @ CHR ''.'' # tile @ CHR ''.'' # zfill 3 (dec build)"

definition token_ok :: "string \<Rightarrow> bool" where
  "token_ok t = (CHR ''.'' \<notin> set t \<and> CHR ''/'' \<notin> set t)"

section \<open>Catalog query (VIIRS_CMR_query.py)\<close>

subsection \<open>Dates and times\<close>

text \<open>
  A \<open>datetime\<close> is a calendar day, a time of day and an optional offset from UTC in
  minutes (\<open>None\<close> for a naive value, \<open>Some 0\<close> for UTC). The functions take a
  \<open>date\<close> object, a \<open>datetime\<close> object (a subclass of \<open>date\<close>) or a string.
\<close>

record datetime =
  dt_date :: date
  hour :: nat
  minute :: nat
  second :: nat
  microsecond :: nat
  utcoffset :: "int option"

datatype py_date = Date date | Datetime datetime

datatype date_input = Obj py_date | Str string

fun date_part :: "py_date \<Rightarrow> date" where
  "date_part (Date d) = d"
| "date_part (Datetime t) = dt_date t"

text \<open>
  \<open>strftime("%Y-%m-%d")\<close>. CPython hands the format to the C library; the C library
  of Linux writes \<open>%Y\<close> as the plain decimal number of the year, without padding
  (\<open>date(1, 1, 1)\<close> gives \<open>1-01-01\<close>), and \<open>%m\<close> and \<open>%d\<close> on two digits.
\<close>

definition strftime_ymd :: "date \<Rightarrow> string" where
  "strftime_ymd d = dec (year d) @ ''-'' @ zfill 2 (dec (month d)) @ ''-'' @ zfill 2 (dec (day d))"

definition at_utc :: "date \<Rightarrow> nat \<Rightarrow> nat \<Rightarrow> nat \<Rightarrow> datetime" where
  "at_utc d h m s =
     \<lparr>dt_date = d, hour = h, minute = m, second = s, microsecond = 0, utcoffset = Some 0\<rparr>"

text \<open>
  \<open>dateutil.parser.parse\<close> is an external library: the functions take it as the
  parameter \<open>parse\<close>.
\<close>

definition earliest_datetime ::
  "(string \<Rightarrow> py_error + datetime) \<Rightarrow> date_input \<Rightarrow> py_error + datetime" where
  "earliest_datetime parse date_in =
     (case (case date_in of
              Str s \<Rightarrow> (case parse s of Inl e \<Rightarrow> Inl e | Inr t \<Rightarrow> Inr (Datetime t))
            | Obj d \<Rightarrow> Inr d) of
        Inl e \<Rightarrow> Inl e
      | Inr datetime_in \<Rightarrow> parse (strftime_ymd (date_part datetime_in) @ ''T00:00:00Z''))"

definition latest_datetime ::
  "(string \<Rightarrow> py_error + datetime) \<Rightarrow> date_input \<Rightarrow> py_error + datetime" where
  "latest_datetime parse date_in =
     (case (case date_in of
              Str s \<Rightarrow> (case parse s of Inl e \<Rightarrow> Inl e | Inr t \<Rightarrow> Inr (Datetime t))
            | Obj d \<Rightarrow> Inr d) of
        Inl e \<Rightarrow> Inl e
      | Inr datetime_in \<Rightarrow> parse (strftime_ymd (date_part datetime_in) @ ''T23:59:59Z''))"

text \<open>
  The extended format of ISO 8601 for a day and a time in UTC,
  \<open>YYYY-MM-DDThh:mm:ssZ\<close>: every field zero-padded to its width. The definition is
  that of the standard; it does not mention what the functions above write.
\<close>

definition iso8601_utc :: "date \<Rightarrow> nat \<Rightarrow> nat \<Rightarrow> nat \<Rightarrow> string" where
  "iso8601_utc d h m s =
     zfill 4 (dec (year d)) @ ''-'' @ zfill 2 (dec (month d)) @ ''-'' @ zfill 2 (dec (day d)) @
     ''T'' @ zfill 2 (dec h) @ '':'' @ zfill 2 (dec m) @ '':'' @ zfill 2 (dec s) @ ''Z''"

text \<open>What is asked of the parser: it reads every ISO 8601 timestamp in UTC.\<close>

definition parses_iso_utc :: "(string \<Rightarrow> py_error + datetime) \<Rightarrow> bool" where
  "parses_iso_utc parse =
     (\<forall>d h m s. valid_date d \<and> h < 24 \<and> m < 60 \<and> s < 60 \<longrightarrow>
        parse (iso8601_utc d h m s) = Inr (at_utc d h m s))"

subsection \<open>A stand-in for the parser\<close>

text \<open>
  Where a concrete parser is needed, this one stands for the library. It reads two
  forms. The first is the fixed-width ISO 8601 form above.
\<close>

definition iso_parse :: "string \<Rightarrow> py_error + datetime" where
  "iso_parse s =
     (if length s = 20 \<and> s ! 4 = CHR ''-'' \<and> s ! 7 = CHR ''-'' \<and> s ! 10 = CHR ''T'' \<and>
         s ! 13 = CHR '':'' \<and> s ! 16 = CHR '':'' \<and> s ! 19 = CHR ''Z'' \<and>
         list_all is_digit (take 4 s @ take 2 (drop 5 s) @ take 2 (drop 8 s) @
                            take 2 (drop 11 s) @ take 2 (drop 14 s) @ take 2 (drop 17 s)) \<and>
         valid_date \<lparr>year = nat_of_digits (take 4 s),
                      month = nat_of_digits (take 2 (drop 5 s)),
                      day = nat_of_digits (take 2 (drop 8 s))\<rparr> \<and>
         nat_of_digits (take 2 (drop 11 s)) < 24 \<and>
         nat_of_digits (take 2 (drop 14 s)) < 60 \<and>
         nat_of_digits (take 2 (drop 17 s)) < 60
      then Inr (at_utc \<lparr>year = nat_of_digits (take 4 s),
                        month = nat_of_digits (take 2 (drop 5 s)),
                        day = nat_of_digits (take 2 (drop 8 s))\<rparr>
                  (nat_of_digits (take 2 (drop 11 s)))
                  (nat_of_digits (take 2 (drop 14 s)))
                  (nat_of_digits (take 2 (drop 17 s))))
      else Inl (ValueError (Unparsed s)))"

text \<open>
  The second form has three date fields of one or two digits each, as the C library
  writes a year below 100. The library then has no four-digit year to go by and
  resolves the fields by size (\<open>_ymd.resolve_ymd\<close>): a first field above 31 is the
  year; else a first field above 12 is the day, followed by month and year; else the
  order is month, day, year. A year below 100 is moved into the century of the
  current year, within fifty years of it (\<open>convertyear\<close>).
\<close>

definition convertyear :: "nat \<Rightarrow> nat \<Rightarrow> nat" where
  "convertyear this_year y =
     (if y < 100
      then (let c = y + 100 * (this_year div 100)
            in if this_year + 50 \<le> c then c - 100 else if c + 50 < this_year then c + 100 else c)
      else y)"

definition resolve_ymd :: "nat \<Rightarrow> nat \<Rightarrow> nat \<Rightarrow> nat \<Rightarrow> date" where
  "resolve_ymd this_year a b c =
     (if 31 < a then \<lparr>year = convertyear this_year a, month = b, day = c\<rparr>
      else if 12 < a then \<lparr>year = convertyear this_year c, month = b, day = a\<rparr>
      else \<lparr>year = convertyear this_year c, month = a, day = b\<rparr>)"

definition short_field :: "string \<Rightarrow> bool" where
  "short_field t = (1 \<le> length t \<and> length t \<le> 2 \<and> list_all is_digit t)"

definition short_parse :: "nat \<Rightarrow> string \<Rightarrow> py_error + datetime" where
  "short_parse this_year s =
     (case split_on CHR ''T'' s of
        [dpart, t] \<Rightarrow>
          (case split_on CHR ''-'' dpart of
             [a, b, c] \<Rightarrow>
               if short_field a \<and> short_field b \<and> short_field c \<and>
                  length t = 9 \<and> t ! 2 = CHR '':'' \<and> t ! 5 = CHR '':'' \<and> t ! 8 = CHR ''Z'' \<and>
                  list_all is_digit (take 2 t @ take 2 (drop 3 t) @ take 2 (drop 6 t)) \<and>
                  valid_date (resolve_ymd this_year (nat_of_digits a) (nat_of_digits b)
                                (nat_of_digits c)) \<and>
                  nat_of_digits (take 2 t) < 24 \<and> nat_of_digits (take 2 (drop 3 t)) < 60 \<and>
                  nat_of_digits (take 2 (drop 6 t)) < 60
               then Inr (at_utc (resolve_ymd this_year (nat_of_digits a) (nat_of_digits b)
                                   (nat_of_digits c))
                           (nat_of_digits (take 2 t)) (nat_of_digits (take 2 (drop 3 t)))
                           (nat_of_digits (take 2 (drop 6 t))))
               else Inl (ValueError (Unparsed s))
           | _ \<Rightarrow> Inl (ValueError (Unparsed s)))
      | _ \<Rightarrow> Inl (ValueError (Unparsed s)))"

definition parse_standin :: "nat \<Rightarrow> string \<Rightarrow> py_error + datetime" where
  "parse_standin this_year s =
     (case iso_parse s of Inr t \<Rightarrow> Inr t | Inl _ \<Rightarrow> short_parse this_year s)"

subsection \<open>Granule records\<close>

text \<open>
  A granule record is the JSON object the catalog returns; the query reads two strings
  out of it by nested subscripts, so only strings and objects are represented. Subscripting a string with a key is a \<open>TypeError\<close>,
  a missing key a \<open>KeyError\<close>.
\<close>

datatype json = JString string | JObject "(string \<times> json) list"

definition py_getitem :: "json \<Rightarrow> string \<Rightarrow> py_error + json" where
  "py_getitem j k =
     (case j of
        JString _ \<Rightarrow> Inl TypeError
      | JObject kvs \<Rightarrow> (case map_of kvs k of None \<Rightarrow> Inl (KeyError k) | Some v \<Rightarrow> Inr v))"

definition then_get :: "py_error + json \<Rightarrow> string \<Rightarrow> py_error + json" where
  "then_get r k = (case r of Inl e \<Rightarrow> Inl e | Inr j \<Rightarrow> py_getitem j k)"

text \<open>\<open>granule["umm"]["TemporalExtent"]["RangeDateTime"]["BeginningDateTime"]\<close>\<close>

definition BeginningDateTime :: "json \<Rightarrow> py_error + json" where
  "BeginningDateTime granule =
     then_get (then_get (then_get (py_getitem granule ''umm'') ''TemporalExtent'')
                 ''RangeDateTime'') ''BeginningDateTime''"

text \<open>\<open>granule["meta"]["native-id"]\<close>\<close>

definition native_id :: "json \<Rightarrow> py_error + json" where
  "native_id granule = then_get (py_getitem granule ''meta'') ''native-id''"


text \<open>Evaluating a fallible function over a list from left to right; the first error wins.\<close>

fun collect :: "('a \<Rightarrow> py_error + 'b) \<Rightarrow> 'a list \<Rightarrow> py_error + 'b list" where
  "collect f [] = Inr []"
| "collect f (x # xs) =
     (case f x of
        Inl e \<Rightarrow> Inl e
      | Inr y \<Rightarrow> (case collect f xs of Inl e \<Rightarrow> Inl e | Inr ys \<Rightarrow> Inr (y # ys)))"

fun is_JString :: "json \<Rightarrow> bool" where
  "is_JString (JString _) = True"
| "is_JString (JObject _) = False"

fun un_JString :: "json \<Rightarrow> string" where
  "un_JString (JString s) = s"
| "un_JString (JObject _) = []"

text \<open>
  \<open>sorted(xs, key=f)\<close>: the keys are computed first, one per element; the sort is
  stable and compares keys only. Strings compare lexicographically by character;
  comparing two objects, or an object and a string, is a \<open>TypeError\<close> (no comparison
  happens on fewer than two elements).
\<close>

definition py_sorted :: "(json \<Rightarrow> py_error + json) \<Rightarrow> json list \<Rightarrow> py_error + json list" where
  "py_sorted key xs =
     (case collect key xs of
        Inl e \<Rightarrow> Inl e
      | Inr ks \<Rightarrow>
          if length xs \<le> 1 then Inr xs
          else if list_all is_JString ks
          then Inr (map snd (sort_key fst (zip (map un_JString ks) xs)))
          else Inl TypeError)"

subsection \<open>The request and the query\<close>

type_synonym ring = "(real \<times> real) list"

text \<open>
  The spatial filter: a point, a polygon (given by the coordinates of its exterior
  ring) or a raster geometry (given by the exterior ring of its corner polygon in
  latitude and longitude).
\<close>

datatype geometry = Point real real | Polygon ring | RasterGeometry ring

record granule_query =
  concept_id :: string
  temporal :: "(datetime \<times> datetime) option"
  point :: "(real \<times> real) option"
  polygon :: "ring option"
  readable_granule_name :: "string option"

text \<open>
  The three lines both polygon branches share: take the exterior ring, reverse it
  unless it is counter-clockwise, read its coordinates. The orientation test
  \<open>is_ccw\<close> belongs to the geometry library and is a parameter; reversing a ring
  reverses its coordinate sequence.
\<close>

definition ccw_coords :: "(ring \<Rightarrow> bool) \<Rightarrow> ring \<Rightarrow> ring" where
  "ccw_coords is_ccw ring = (if \<not> is_ccw ring then rev ring else ring)"

text \<open>
  A call of a builder method of the search library records its argument in the
  request; the library may refuse the argument and raise. What it refuses is the
  library's business: \<open>accept\<close> is a parameter, giving the error raised on the request
  as it would stand after the call, if any.
\<close>

definition builder_call ::
  "(granule_query \<Rightarrow> py_error option) \<Rightarrow> granule_query \<Rightarrow> py_error + granule_query" where
  "builder_call accept q = (case accept q of Some e \<Rightarrow> Inl e | None \<Rightarrow> Inr q)"

text \<open>
  The part of \<open>VIIRS_CMR_query\<close> before the \<open>try\<close>: composing the request. The
  concept identifier is set before the two dates are normalised.
\<close>

definition build_query ::
  "(string \<Rightarrow> py_error + datetime) \<Rightarrow> (ring \<Rightarrow> bool) \<Rightarrow> (granule_query \<Rightarrow> py_error option) \<Rightarrow>
   string \<Rightarrow> date_input \<Rightarrow> date_input \<Rightarrow> geometry option \<Rightarrow> string option \<Rightarrow>
   py_error + granule_query" where
  "build_query parse is_ccw accept concept_ID start_date end_date target_geometry tile =
     (case builder_call accept
             \<lparr>concept_id = concept_ID, temporal = None, point = None, polygon = None,
              readable_granule_name = None\<rparr> of
        Inl e \<Rightarrow> Inl e
      | Inr query \<Rightarrow>
     (case earliest_datetime parse start_date of
        Inl e \<Rightarrow> Inl e
      | Inr t0 \<Rightarrow>
     (case latest_datetime parse end_date of
        Inl e \<Rightarrow> Inl e
      | Inr t1 \<Rightarrow>
     (case builder_call accept (query\<lparr>temporal := Some (t0, t1)\<rparr>) of
        Inl e \<Rightarrow> Inl e
      | Inr query \<Rightarrow>
     (case (case target_geometry of
              Some (Point x y) \<Rightarrow> builder_call accept (query\<lparr>point := Some (x, y)\<rparr>)
            | _ \<Rightarrow> Inr query) of
        Inl e \<Rightarrow> Inl e
      | Inr query \<Rightarrow>
     (case (case target_geometry of
              Some (Polygon ring) \<Rightarrow>
                builder_call accept (query\<lparr>polygon := Some (ccw_coords is_ccw ring)\<rparr>)
            | _ \<Rightarrow> Inr query) of
        Inl e \<Rightarrow> Inl e
      | Inr query \<Rightarrow>
     (case (case target_geometry of
              Some (RasterGeometry ring) \<Rightarrow>
                builder_call accept (query\<lparr>polygon := Some (ccw_coords is_ccw ring)\<rparr>)
            | _ \<Rightarrow> Inr query) of
        Inl e \<Rightarrow> Inl e
      | Inr query \<Rightarrow>
     (case tile of
        Some t \<Rightarrow> builder_call accept (query\<lparr>readable_granule_name := Some (''*.'' @ t @ ''.*'')\<rparr>)
      | None \<Rightarrow> Inr query))))))))"

text \<open>
  The query. The transport \<open>get\<close> is external and a parameter. \<open>except Exception\<close>
  catches every exception but those deriving from \<open>BaseException\<close> alone. Writing
  the log reads each record's native identifier, which can raise; the log lines
  themselves are not part of the result.
\<close>

definition VIIRS_CMR_query ::
  "(string \<Rightarrow> py_error + datetime) \<Rightarrow> (ring \<Rightarrow> bool) \<Rightarrow> (granule_query \<Rightarrow> py_error option) \<Rightarrow>
   (granule_query \<Rightarrow> py_error + json list) \<Rightarrow>
   string \<Rightarrow> date_input \<Rightarrow> date_input \<Rightarrow> geometry option \<Rightarrow> string option \<Rightarrow>
   py_error + json list" where
  "VIIRS_CMR_query parse is_ccw accept get concept_ID start_date end_date target_geometry tile =
     (case build_query parse is_ccw accept concept_ID start_date end_date target_geometry tile of
        Inl e \<Rightarrow> Inl e
      | Inr query \<Rightarrow>
     (case get query of
        Inl e \<Rightarrow> if is_Exception e then Inl (CMRServerUnreachable e) else Inl e
      | Inr granules \<Rightarrow>
     (case py_sorted BeginningDateTime granules of
        Inl e \<Rightarrow> Inl e
      | Inr sorted_granules \<Rightarrow>
     (case collect native_id sorted_granules of
        Inl e \<Rightarrow> Inl e
      | Inr _ \<Rightarrow> Inr sorted_granules))))"

text \<open>
  An orientation test for concrete rings: the sign of the shoelace sum, twice the
  signed area. It stands for the library's test where a concrete one is needed.
\<close>

fun shoelace :: "ring \<Rightarrow> real" where
  "shoelace ((x1, y1) # (x2, y2) # ps) = (x1 * y2 - x2 * y1) + shoelace ((x2, y2) # ps)"
| "shoelace _ = 0"

definition shoelace_ccw :: "ring \<Rightarrow> bool" where
  "shoelace_ccw r = (0 \<le> shoelace r)"



section \<open>Granule decoder (VIIRS_tiled_granule.py)\<close>

subsection \<open>Floating-point values\<close>

text \<open>
  A double is a finite real, an infinity or the not-a-number value. Arithmetic
  follows IEEE 754: an operation with a not-a-number operand gives not-a-number,
  infinity times zero and infinity minus infinity give not-a-number, and the exact
  result of an operation on finite operands is rounded. The rounding \<open>rnd\<close> is a
  parameter: nothing is assumed of it, and it may return an infinity on overflow.
\<close>

datatype double = Finite real | PosInf | NegInf | NaN

fun negative :: "double \<Rightarrow> bool" where
  "negative (Finite x) = (x < 0)"
| "negative NegInf = True"
| "negative _ = False"

fun fmul :: "(real \<Rightarrow> double) \<Rightarrow> double \<Rightarrow> double \<Rightarrow> double" where
  "fmul rnd NaN b = NaN"
| "fmul rnd a NaN = NaN"
| "fmul rnd (Finite x) (Finite y) = rnd (x * y)"
| "fmul rnd a b =
     (if a = Finite 0 \<or> b = Finite 0 then NaN
      else if negative a = negative b then PosInf else NegInf)"

fun fadd :: "(real \<Rightarrow> double) \<Rightarrow> double \<Rightarrow> double \<Rightarrow> double" where
  "fadd rnd NaN b = NaN"
| "fadd rnd a NaN = NaN"
| "fadd rnd (Finite x) (Finite y) = rnd (x + y)"
| "fadd rnd PosInf NegInf = NaN"
| "fadd rnd NegInf PosInf = NaN"
| "fadd rnd PosInf b = PosInf"
| "fadd rnd a PosInf = PosInf"
| "fadd rnd NegInf b = NegInf"
| "fadd rnd a NegInf = NegInf"

text \<open>Comparison of a pixel with an integer; every comparison with not-a-number is false.\<close>

fun feq :: "double \<Rightarrow> int \<Rightarrow> bool" where
  "feq (Finite x) v = (x = of_int v)"
| "feq _ v = False"

fun flt :: "double \<Rightarrow> int \<Rightarrow> bool" where
  "flt (Finite x) v = (x < of_int v)"
| "flt NegInf v = True"
| "flt _ v = False"

fun fgt :: "double \<Rightarrow> int \<Rightarrow> bool" where
  "fgt (Finite x) v = (of_int v < x)"
| "fgt PosInf v = True"
| "fgt _ v = False"

text \<open>
  \<open>int(x)\<close> of a floating-point value truncates towards zero and refuses not-a-number
  and the infinities.
\<close>

fun int_of_double :: "double \<Rightarrow> py_error + int" where
  "int_of_double (Finite x) = Inr (if 0 \<le> x then \<lfloor>x\<rfloor> else \<lceil>x\<rceil>)"
| "int_of_double NaN = Inl (ValueError CannotConvertNaN)"
| "int_of_double _ = Inl OverflowError"

subsection \<open>Rasters\<close>

text \<open>
  A raster is an array, given by its shape and its elements in row-major order, with
  a georeference. The georeference type \<open>'g\<close> is opaque. The raster class is an
  external library's: comparison and arithmetic of a raster with a scalar, and
  \<open>where\<close>, are taken element by element, as on the underlying arrays, and the
  stored numbers as the doubles they convert to.
\<close>

record ('a, 'g) raster =
  shape :: "nat list"
  elems :: "'a list"
  geometry :: 'g

definition map_raster :: "('a \<Rightarrow> 'b) \<Rightarrow> ('a, 'g) raster \<Rightarrow> ('b, 'g) raster" where
  "map_raster f r = \<lparr>shape = shape r, elems = map f (elems r), geometry = geometry r\<rparr>"

text \<open>\<open>rt.where(condition, np.nan, layer)\<close>\<close>

definition where_nan :: "(double \<Rightarrow> bool) \<Rightarrow> (double, 'g) raster \<Rightarrow> (double, 'g) raster" where
  "where_nan condition layer = map_raster (\<lambda>p. if condition p then NaN else p) layer"

text \<open>\<open>Raster(np.full(layer.shape, False), geometry=layer.geometry)\<close>\<close>

definition full_false :: "('a, 'g) raster \<Rightarrow> (bool, 'g) raster" where
  "full_false layer =
     \<lparr>shape = shape layer, elems = replicate (prod_list (shape layer)) False,
      geometry = geometry layer\<rparr>"

subsection \<open>The hierarchical file\<close>

text \<open>
  Attributes are numeric: a scalar or a one-dimensional array. A node of the file is
  a group of named members or a dataset; both carry attributes.
\<close>

datatype attr_value = Scalar double | Array "double list"

datatype h5node =
    Group "(string \<times> h5node) list" "(string \<times> attr_value) list"
  | Dataset "nat list" "double list" "(string \<times> attr_value) list"

fun node_attrs :: "h5node \<Rightarrow> (string \<times> attr_value) list" where
  "node_attrs (Group _ a) = a"
| "node_attrs (Dataset _ _ a) = a"

text \<open>\<open>.keys()\<close>: the member names of a group; a dataset has no such method.\<close>

fun keys :: "h5node \<Rightarrow> py_error + string list" where
  "keys (Group members _) = Inr (map fst members)"
| "keys (Dataset _ _ _) = Inl AttributeError"

text \<open>Following a list of names down from a node; a name that is not there is a \<open>KeyError\<close>.\<close>

fun descend :: "h5node \<Rightarrow> string list \<Rightarrow> string \<Rightarrow> py_error + h5node" where
  "descend node [] path = Inr node"
| "descend (Group members a) (name # names) path =
     (case map_of members name of
        None \<Rightarrow> Inl (KeyError path)
      | Some child \<Rightarrow> descend child names path)"
| "descend (Dataset s v a) (name # names) path = Inl (KeyError path)"

text \<open>\<open>file[path]\<close>: the path is split at slashes, empty components do not count.\<close>

definition h5_get :: "h5node \<Rightarrow> string \<Rightarrow> py_error + h5node" where
  "h5_get file path = descend file (filter (\<lambda>n. n \<noteq> []) (split_on CHR ''/'' path)) path"

text \<open>Conversions of an attribute: \<open>int(a)\<close>, \<open>float(a)\<close> and \<open>a[i]\<close>.\<close>

fun py_float_attr :: "attr_value \<Rightarrow> py_error + double" where
  "py_float_attr (Scalar v) = Inr v"
| "py_float_attr (Array [v]) = Inr v"
| "py_float_attr (Array _) = Inl TypeError"

definition py_int_attr :: "attr_value \<Rightarrow> py_error + int" where
  "py_int_attr a = (case py_float_attr a of Inl e \<Rightarrow> Inl e | Inr v \<Rightarrow> int_of_double v)"

fun attr_index :: "attr_value \<Rightarrow> nat \<Rightarrow> py_error + attr_value" where
  "attr_index (Scalar v) i = Inl IndexError"
| "attr_index (Array vs) i = (case py_index vs i of Inl e \<Rightarrow> Inl e | Inr v \<Rightarrow> Inr (Scalar v))"

definition py_int_attr_at :: "nat \<Rightarrow> attr_value \<Rightarrow> py_error + int" where
  "py_int_attr_at i a = (case attr_index a i of Inl e \<Rightarrow> Inl e | Inr v \<Rightarrow> py_int_attr v)"

subsection \<open>The world: files and open handles\<close>

record world =
  files :: "string \<Rightarrow> h5node option"
  open_handles :: "nat list"
  next_handle :: nat

text \<open>\<open>h5py.File(path, "r")\<close>: a missing file raises and opens nothing.\<close>

definition h5_open :: "string \<Rightarrow> world \<Rightarrow> (py_error + nat \<times> h5node) \<times> world" where
  "h5_open path w =
     (case files w path of
        None \<Rightarrow> (Inl (FileNotFoundError path), w)
      | Some file \<Rightarrow>
          (Inr (next_handle w, file),
           w\<lparr>open_handles := next_handle w # open_handles w, next_handle := Suc (next_handle w)\<rparr>))"

definition h5_close :: "nat \<Rightarrow> world \<Rightarrow> world" where
  "h5_close h w = w\<lparr>open_handles := remove1 h (open_handles w)\<rparr>"

text \<open>
  \<open>with h5py.File(path, "r") as file: body\<close>. The context manager closes the file
  when the block is left, by a return or by an exception alike.
\<close>

definition with_file :: "string \<Rightarrow> (h5node \<Rightarrow> py_error + 'a) \<Rightarrow> world \<Rightarrow> (py_error + 'a) \<times> world" where
  "with_file path body w =
     (case h5_open path w of
        (Inl e, w') \<Rightarrow> (Inl e, w')
      | (Inr (h, file), w') \<Rightarrow> (body file, h5_close h w'))"

subsection \<open>The decoder\<close>

text \<open>
  The decoder object holds the file name and a cloud mask that is never set. What it
  takes from outside is gathered in an environment: the rounding of the floating-point
  unit, \<open>abspath(expanduser(_))\<close>, the tile grid of \<open>modland\<close>, the reprojection
  \<open>to_geometry\<close> of \<open>rasters\<close>, and the tile parser, which the class imports
  from a module \<open>granule_ID\<close> that is not among the sources.
\<close>

record VIIRSTiledGranule =
  filename :: string
  cloud_mask :: "bool list option"

record 'g env =
  rnd :: "real \<Rightarrow> double"
  abspath :: "string \<Rightarrow> string"
  parse_tile :: "string \<Rightarrow> py_error + string"
  generate_modland_grid :: "string \<Rightarrow> nat \<Rightarrow> py_error + 'g"
  to_geometry :: "'g \<Rightarrow> (double, 'g) raster \<Rightarrow> py_error + (double, 'g) raster"

definition filename_absolute :: "'g env \<Rightarrow> VIIRSTiledGranule \<Rightarrow> string" where
  "filename_absolute env self = abspath env (filename self)"

definition grids :: "'g env \<Rightarrow> VIIRSTiledGranule \<Rightarrow> world \<Rightarrow> (py_error + string list) \<times> world" where
  "grids env self w =
     with_file (filename_absolute env self)
       (\<lambda>file. case h5_get file ''HDFEOS/GRIDS/'' of Inl e \<Rightarrow> Inl e | Inr node \<Rightarrow> keys node) w"

definition variables ::
  "'g env \<Rightarrow> VIIRSTiledGranule \<Rightarrow> string \<Rightarrow> world \<Rightarrow> (py_error + string list) \<times> world" where
  "variables env self grid w =
     with_file (filename_absolute env self)
       (\<lambda>file. case h5_get file (''HDFEOS/GRIDS/'' @ grid @ ''/Data Fields/'') of
                 Inl e \<Rightarrow> Inl e
               | Inr node \<Rightarrow> keys node) w"

text \<open>The block of \<open>DN\<close> under \<open>with\<close>: the tile is parsed before the shape is read.\<close>

definition read_dataset ::
  "'g env \<Rightarrow> VIIRSTiledGranule \<Rightarrow> string \<Rightarrow> string \<Rightarrow> h5node \<Rightarrow> py_error + (double, 'g) raster" where
  "read_dataset env self variable grid file =
     (case h5_get file (''HDFEOS/GRIDS/'' @ grid @ ''/Data Fields/'' @ variable) of
        Inl e \<Rightarrow> Inl e
      | Inr dataset \<Rightarrow>
     (case parse_tile env (filename self) of
        Inl e \<Rightarrow> Inl e
      | Inr tile \<Rightarrow>
     (case dataset of
        Group _ _ \<Rightarrow> Inl AttributeError
      | Dataset dshape values _ \<Rightarrow>
     (case py_index dshape 0 of
        Inl e \<Rightarrow> Inl e
      | Inr tile_size \<Rightarrow>
     (case generate_modland_grid env tile tile_size of
        Inl e \<Rightarrow> Inl e
      | Inr DN_geometry \<Rightarrow>
          Inr \<lparr>shape = dshape, elems = values, geometry = DN_geometry\<rparr>)))))"

definition DN ::
  "'g env \<Rightarrow> VIIRSTiledGranule \<Rightarrow> string \<Rightarrow> string \<Rightarrow> 'g option \<Rightarrow> world \<Rightarrow>
   (py_error + (double, 'g) raster) \<times> world" where
  "DN env self variable grid geom w =
     (case with_file (filename_absolute env self) (read_dataset env self variable grid) w of
        (Inl e, w') \<Rightarrow> (Inl e, w')
      | (Inr dn, w') \<Rightarrow>
          (case geom of
             None \<Rightarrow> (Inr dn, w')
           | Some target \<Rightarrow> (to_geometry env target dn, w')))"

definition attributes ::
  "'g env \<Rightarrow> VIIRSTiledGranule \<Rightarrow> string \<Rightarrow> string \<Rightarrow> world \<Rightarrow>
   (py_error + (string \<times> attr_value) list) \<times> world" where
  "attributes env self variable grid w =
     with_file (filename_absolute env self)
       (\<lambda>file. case h5_get file (''HDFEOS/GRIDS/'' @ grid @ ''/Data Fields/'' @ variable) of
                 Inl e \<Rightarrow> Inl e
               | Inr dataset \<Rightarrow> Inr (node_attrs dataset)) w"

text \<open>
  \<open>if x is None and key in attributes: x = convert(attributes[key])\<close>: the value a
  stage works with. An explicit argument is taken as it is and the attribute is not
  looked at.
\<close>

definition discover ::
  "'a option \<Rightarrow> attr_value option \<Rightarrow> (attr_value \<Rightarrow> py_error + 'a) \<Rightarrow> py_error + 'a option" where
  "discover explicit attr convert =
     (case explicit of
        Some v \<Rightarrow> Inr (Some v)
      | None \<Rightarrow>
          (case attr of
             None \<Rightarrow> Inr None
           | Some a \<Rightarrow> (case convert a of Inl e \<Rightarrow> Inl e | Inr v \<Rightarrow> Inr (Some v))))"

text \<open>The body of \<open>layer\<close> after the two reads, statement by statement.\<close>

definition layer_steps ::
  "(real \<Rightarrow> double) \<Rightarrow> (double, 'g) raster \<Rightarrow> (string \<times> attr_value) list \<Rightarrow> int option \<Rightarrow>
   double option \<Rightarrow> double option \<Rightarrow> int option \<Rightarrow> int option \<Rightarrow> py_error + (double, 'g) raster" where
  "layer_steps r dn attrs fill scale offset valid_min valid_max =
     (let layer = dn in
      case discover fill (map_of attrs ''_Fillvalue'') py_int_attr of
        Inl e \<Rightarrow> Inl e
      | Inr fill \<Rightarrow>
     (let layer = (case fill of Some f \<Rightarrow> where_nan (\<lambda>p. feq p f) layer | None \<Rightarrow> layer) in
      case discover valid_min (map_of attrs ''valid_range'') (py_int_attr_at 0) of
        Inl e \<Rightarrow> Inl e
      | Inr valid_min \<Rightarrow>
     (let layer = (case valid_min of Some v \<Rightarrow> where_nan (\<lambda>p. flt p v) layer | None \<Rightarrow> layer) in
      case discover valid_max (map_of attrs ''valid_range'') (py_int_attr_at 1) of
        Inl e \<Rightarrow> Inl e
      | Inr valid_max \<Rightarrow>
     (let layer = (case valid_max of Some v \<Rightarrow> where_nan (\<lambda>p. fgt p v) layer | None \<Rightarrow> layer) in
      case discover scale (map_of attrs ''scale_factor'') py_float_attr of
        Inl e \<Rightarrow> Inl e
      | Inr scale \<Rightarrow>
     (let layer = (case scale of Some s \<Rightarrow> map_raster (\<lambda>p. fmul r p s) layer | None \<Rightarrow> layer) in
      case discover offset (map_of attrs ''add_offset'') py_float_attr of
        Inl e \<Rightarrow> Inl e
      | Inr offset \<Rightarrow>
     (let layer = (case offset of Some b \<Rightarrow> map_raster (\<lambda>p. fadd r p b) layer | None \<Rightarrow> layer)
      in Inr layer))))))"

definition layer ::
  "'g env \<Rightarrow> VIIRSTiledGranule \<Rightarrow> string \<Rightarrow> string \<Rightarrow> int option \<Rightarrow> double option \<Rightarrow>
   double option \<Rightarrow> int option \<Rightarrow> int option \<Rightarrow> 'g option \<Rightarrow> world \<Rightarrow>
   (py_error + (double, 'g) raster) \<times> world" where
  "layer env self variable grid fill scale offset valid_min valid_max geom w =
     (case DN env self variable grid geom w of
        (Inl e, w1) \<Rightarrow> (Inl e, w1)
      | (Inr dn, w1) \<Rightarrow>
     (case attributes env self variable grid w1 of
        (Inl e, w2) \<Rightarrow> (Inl e, w2)
      | (Inr attrs, w2) \<Rightarrow>
          (layer_steps (rnd env) dn attrs fill scale offset valid_min valid_max, w2)))"

definition fill_steps ::
  "(double, 'g) raster \<Rightarrow> (string \<times> attr_value) list \<Rightarrow> int option \<Rightarrow> py_error + (bool, 'g) raster" where
  "fill_steps dn attrs fill =
     (case discover fill (map_of attrs ''_Fillvalue'') py_int_attr of
        Inl e \<Rightarrow> Inl e
      | Inr (Some f) \<Rightarrow> Inr (map_raster (\<lambda>p. feq p f) dn)
      | Inr None \<Rightarrow> Inr (full_false dn))"

definition fill ::
  "'g env \<Rightarrow> VIIRSTiledGranule \<Rightarrow> string \<Rightarrow> string \<Rightarrow> int option \<Rightarrow> 'g option \<Rightarrow> world \<Rightarrow>
   (py_error + (bool, 'g) raster) \<times> world" where
  "fill env self variable grid fill_value geom w =
     (case DN env self variable grid geom w of
        (Inl e, w1) \<Rightarrow> (Inl e, w1)
      | (Inr dn, w1) \<Rightarrow>
     (case attributes env self variable grid w1 of
        (Inl e, w2) \<Rightarrow> (Inl e, w2)
      | (Inr attrs, w2) \<Rightarrow> (fill_steps dn attrs fill_value, w2)))"

subsection \<open>The calibration pipeline as the specification words it\<close>

text \<open>
  Five stages in a fixed order, each skipped when its parameter is absent:
  fill masking, masking below the valid minimum, masking above the valid maximum,
  multiplication by the scale, addition of the offset.
\<close>

definition stage_fill :: "int option \<Rightarrow> (double, 'g) raster \<Rightarrow> (double, 'g) raster" where
  "stage_fill fill_value l =
     (case fill_value of None \<Rightarrow> l | Some f \<Rightarrow> map_raster (\<lambda>p. if feq p f then NaN else p) l)"

definition stage_min :: "int option \<Rightarrow> (double, 'g) raster \<Rightarrow> (double, 'g) raster" where
  "stage_min valid_min l =
     (case valid_min of None \<Rightarrow> l | Some v \<Rightarrow> map_raster (\<lambda>p. if flt p v then NaN else p) l)"

definition stage_max :: "int option \<Rightarrow> (double, 'g) raster \<Rightarrow> (double, 'g) raster" where
  "stage_max valid_max l =
     (case valid_max of None \<Rightarrow> l | Some v \<Rightarrow> map_raster (\<lambda>p. if fgt p v then NaN else p) l)"

definition stage_scale ::
  "(real \<Rightarrow> double) \<Rightarrow> double option \<Rightarrow> (double, 'g) raster \<Rightarrow> (double, 'g) raster" where
  "stage_scale r scale l = (case scale of None \<Rightarrow> l | Some s \<Rightarrow> map_raster (\<lambda>p. fmul r p s) l)"

definition stage_offset ::
  "(real \<Rightarrow> double) \<Rightarrow> double option \<Rightarrow> (double, 'g) raster \<Rightarrow> (double, 'g) raster" where
  "stage_offset r offset l = (case offset of None \<Rightarrow> l | Some b \<Rightarrow> map_raster (\<lambda>p. fadd r p b) l)"

definition calibrate ::
  "(real \<Rightarrow> double) \<Rightarrow> int option \<Rightarrow> int option \<Rightarrow> int option \<Rightarrow> double option \<Rightarrow> double option \<Rightarrow>
   (double, 'g) raster \<Rightarrow> (double, 'g) raster" where
  "calibrate r fill_value valid_min valid_max scale offset l =
     stage_offset r offset (stage_scale r scale (stage_max valid_max (stage_min valid_min
       (stage_fill fill_value l))))"

text \<open>
  The parameter of a stage as the specification words it: the explicit argument if
  there is one, otherwise the attribute if the dataset has it, otherwise none.
\<close>

definition effective :: "'a option \<Rightarrow> 'a option \<Rightarrow> 'a option" where
  "effective explicit from_attribute =
     (case explicit of Some v \<Rightarrow> Some v | None \<Rightarrow> from_attribute)"

text \<open>Values for concrete examples: exact rounding, and a file with one dataset.\<close>

definition example_env :: "string env" where
  "example_env =
     \<lparr>rnd = Finite, abspath = (\<lambda>p. p), parse_tile = parse_VIIRS_tile,
      generate_modland_grid = (\<lambda>tile size. Inr tile),
      to_geometry = (\<lambda>target r. Inr (r\<lparr>geometry := target\<rparr>))\<rparr>"

definition example_file :: h5node where
  "example_file =
     Group [(''HDFEOS'', Group [(''GRIDS'', Group [(''VIIRS_Grid'', Group [(''Data Fields'',
        Group [(''NDVI'',
          Dataset [1, 5] [Finite 9, Finite 0, Finite 1, Finite 7, Finite 8]
            [(''_Fillvalue'', Array [Finite 9]),
             (''valid_range'', Array [Finite 1, Finite 7]),
             (''scale_factor'', Scalar (Finite 2)),
             (''add_offset'', Scalar (Finite 1))]),
         (''QA'', Dataset [1, 2] [Finite 3, Finite 4] [])] [])] [])] [])] [])] []"

definition example_world :: world where
  "example_world =
     \<lparr>files = (\<lambda>p. if p = ''VNP.A2020123.h10v05.001.h5'' then Some example_file else None),
      open_handles = [], next_handle = 0\<rparr>"

definition example_granule_file :: VIIRSTiledGranule where
  "example_granule_file = \<lparr>filename = ''VNP.A2020123.h10v05.001.h5'', cloud_mask = None\<rparr>"

text \<open>The rounding returns a real that the format holds as it is.\<close>

definition rounds_exactly :: "(real \<Rightarrow> double) \<Rightarrow> real \<Rightarrow> bool" where
  "rounds_exactly r x = (r x = Finite x)"

section \<open>Properties of the filename codec\<close>


lemma split_on_no_sep: "c \<notin> set s \<Longrightarrow> split_on c s = [s]"
  by (induction s) auto

lemma split_on_append: "c \<notin> set a \<Longrightarrow> split_on c (a @ c # r) = a # split_on c r"
  by (induction a) auto

lemma basename_append:
  "CHR ''/'' \<notin> set s \<Longrightarrow> dir = [] \<or> last dir = CHR ''/'' \<Longrightarrow> basename (dir @ s) = s"
proof -
  assume s: "CHR ''/'' \<notin> set s" and d: "dir = [] \<or> last dir = CHR ''/''"
  from s have all: "\<forall>x\<in>set s. x \<noteq> CHR ''/''" by auto
  have "takeWhile (\<lambda>c. c \<noteq> CHR ''/'') (rev s @ rev dir) = rev s"
  proof (cases dir rule: rev_cases)
    case Nil
    with all show ?thesis by simp
  next
    case (snoc ys y)
    with d have "y = CHR ''/''" by simp
    have "takeWhile (\<lambda>c. c \<noteq> CHR ''/'') (rev s @ CHR ''/'' # rev ys)
            = rev s @ takeWhile (\<lambda>c. c \<noteq> CHR ''/'') (CHR ''/'' # rev ys)"
      by (rule takeWhile_append2) (use all in auto)
    with snoc \<open>y = CHR ''/''\<close> show ?thesis by simp
  qed
  then show ?thesis by (simp add: basename_def)
qed

lemma below_ten: "n < 10 \<Longrightarrow> n \<in> {0, 1, 2, 3, 4, 5, 6, 7, 8, 9::nat}"
  by auto

lemma digit_val_char: "n < 10 \<Longrightarrow> digit_val (digit_char n) = n"
  by (drule below_ten) (auto simp: digit_val_def digit_char_def)

lemma is_digit_char: "n < 10 \<Longrightarrow> is_digit (digit_char n)"
  by (drule below_ten) (auto simp: is_digit_def digit_char_def less_eq_char_def)

lemma dec_digits: "list_all is_digit (dec n)"
  by (induction n rule: dec.induct) (subst dec.simps, simp add: is_digit_char)

lemma nat_of_digits_snoc: "nat_of_digits (s @ [c]) = 10 * nat_of_digits s + digit_val c"
  by (simp add: nat_of_digits_def)

lemma nat_of_digits_dec: "nat_of_digits (dec n) = n"
proof (induction n rule: dec.induct)
  case (1 n)
  show ?case
  proof (cases "n < 10")
    case True
    then show ?thesis by (subst dec.simps) (simp add: nat_of_digits_def digit_val_char)
  next
    case False
    with 1 show ?thesis
      by (subst dec.simps) (simp add: nat_of_digits_snoc digit_val_char)
  qed
qed

lemma length_dec: "n < 10 ^ k \<Longrightarrow> 0 < k \<Longrightarrow> length (dec n) \<le> k"
proof (induction n arbitrary: k rule: dec.induct)
  case (1 n)
  show ?case
  proof (cases "n < 10")
    case True
    with 1 show ?thesis by (subst dec.simps) simp
  next
    case False
    from False 1(2) have k: "1 < k" by (cases k; cases "k - 1") auto
    then obtain k' where k': "k = Suc k'" "0 < k'" by (cases k) auto
    with 1(2) have "n div 10 < 10 ^ k'" by (simp add: less_mult_imp_div_less mult.commute)
    with 1(1)[OF False this k'(2)] False k' show ?thesis by (subst dec.simps) simp
  qed
qed

lemma dec_nonempty: "dec n \<noteq> []"
  by (subst dec.simps) simp

lemma nat_of_digits_zeros: "nat_of_digits (replicate k CHR ''0'' @ s) = nat_of_digits s"
proof -
  have "foldl (\<lambda>acc c. 10 * acc + digit_val c) 0 (replicate k CHR ''0'') = 0"
  proof (induction k)
    case 0
    show ?case by simp
  next
    case (Suc k)
    have "replicate (Suc k) CHR ''0'' = replicate k CHR ''0'' @ [CHR ''0'']"
      by (simp add: replicate_append_same)
    with Suc show ?case by (simp add: digit_val_def)
  qed
  then show ?thesis by (simp add: nat_of_digits_def)
qed

lemma nat_of_digits_zfill: "nat_of_digits (zfill w (dec n)) = n"
  by (simp add: zfill_def nat_of_digits_zeros nat_of_digits_dec)

lemma is_digit_zero: "is_digit CHR ''0''"
  by (simp add: is_digit_def)

lemma zfill_digits: "list_all is_digit (zfill w (dec n))"
  using dec_digits [of n] by (auto simp: zfill_def is_digit_zero list_all_iff)

lemma length_zfill: "length s \<le> w \<Longrightarrow> length (zfill w s) = w"
  by (simp add: zfill_def)

lemma locate_yday:
  "k < length ns \<Longrightarrow> 1 \<le> d \<Longrightarrow> d \<le> ns ! k \<Longrightarrow>
   locate ns m (sum_list (take k ns) + d) = Some (m + k, d)"
proof (induction ns arbitrary: k m)
  case Nil
  then show ?case by simp
next
  case (Cons n ns)
  show ?case
  proof (cases k)
    case 0
    with Cons.prems show ?thesis by simp
  next
    case (Suc k')
    with Cons.prems have "locate ns (Suc m) (sum_list (take k' ns) + d) = Some (Suc m + k', d)"
      by (intro Cons.IH) simp_all
    with Suc Cons.prems show ?thesis by simp
  qed
qed

lemma length_month_lengths: "length (month_lengths y) = 12"
  by (simp add: month_lengths_def)

lemma sum_take_nth_le: "k < length ns \<Longrightarrow> sum_list (take k ns) + ns ! k \<le> sum_list (ns :: nat list)"
proof -
  assume k: "k < length ns"
  then have "sum_list (take (Suc k) ns) = sum_list (take k ns) + ns ! k"
    by (simp add: take_Suc_conv_app_nth)
  moreover have "sum_list (take (Suc k) ns) + sum_list (drop (Suc k) ns) = sum_list ns"
    by (simp flip: sum_list_append)
  ultimately show ?thesis by linarith
qed

lemma sum_month_lengths: "sum_list (month_lengths y) = days_in_year y"
  by (simp add: month_lengths_def days_in_year_def)

lemma yday_bounds: "valid_date d \<Longrightarrow> 1 \<le> yday d \<and> yday d \<le> 366"
proof -
  assume v: "valid_date d"
  then have m: "month d - 1 < length (month_lengths (year d))" and d1: "1 \<le> day d"
    and d2: "day d \<le> month_lengths (year d) ! (month d - 1)"
    by (auto simp: valid_date_def length_month_lengths)
  from sum_take_nth_le [OF m] d2 have "yday d \<le> days_in_year (year d)"
    by (simp add: yday_def sum_month_lengths)
  with d1 show ?thesis by (simp add: yday_def days_in_year_def split: if_splits)
qed

lemma match_j_three:
  assumes "length s = 3" "list_all is_digit s" "1 \<le> nat_of_digits s" "nat_of_digits s \<le> 366"
  shows "match_j s = 3"
  using assms by (simp add: match_j_def)

lemma strptime_format: "valid_date d \<Longrightarrow> strptime_Yj (format_Yj d) = Inr d"
proof -
  assume v: "valid_date d"
  let ?Y = "zfill 4 (dec (year d))" and ?J = "zfill 3 (dec (yday d))"
  from v have y: "1 \<le> year d" "year d < 10 ^ 4" by (auto simp: valid_date_def)
  from yday_bounds [OF v] have j: "1 \<le> yday d" "yday d \<le> 366" "yday d < 10 ^ 3" by auto
  have lY: "length ?Y = 4" using length_dec [OF y(2)] by (simp add: length_zfill)
  have lJ: "length ?J = 3" using length_dec [OF j(3)] by (simp add: length_zfill)
  have tk: "take 4 (format_Yj d) = ?Y" and dr: "drop 4 (format_Yj d) = ?J"
    using lY by (simp_all add: format_Yj_def)
  have len: "length (format_Yj d) = 7" using lY lJ by (simp add: format_Yj_def)
  have mj: "match_j ?J = 3"
    using lJ zfill_digits [of 3 "yday d"] j by (intro match_j_three) (simp_all add: nat_of_digits_zfill)
  from v have m: "month d - 1 < length (month_lengths (year d))" "1 \<le> day d"
    "day d \<le> month_lengths (year d) ! (month d - 1)" "1 \<le> month d"
    by (auto simp: valid_date_def length_month_lengths)
  have loc: "locate (month_lengths (year d)) 1 (yday d) = Some (month d, day d)"
    using locate_yday [OF m(1) m(2) m(3), of 1] m(4) by (simp add: yday_def)
  have "date_of_yday (year d) (yday d) = Inr d"
    using y(1) loc by (simp add: date_of_yday_def)
  then show ?thesis
    using len zfill_digits [of 4 "year d"]
    by (simp add: strptime_Yj_def tk dr mj nat_of_digits_zfill)
qed

lemma digit_not_space: "is_digit c \<Longrightarrow> \<not> is_space c"
  by (auto simp: is_digit_def is_space_def less_eq_char_def)

lemma digit_not_sign: "is_digit c \<Longrightarrow> c \<noteq> CHR ''-'' \<and> c \<noteq> CHR ''+'' \<and> c \<noteq> CHR ''_''"
  by (auto simp: is_digit_def less_eq_char_def)

lemma strip_digits: "list_all is_digit s \<Longrightarrow> strip s = s"
proof -
  assume a: "list_all is_digit s"
  have d: "dropWhile is_space t = t" if "list_all is_digit t" for t
    using that by (cases t) (simp_all add: digit_not_space)
  from a have "list_all is_digit (rev s)" by (simp add: list_all_iff)
  with a show ?thesis by (simp add: strip_def d)
qed

lemma digit_groups_digits: "list_all is_digit s \<Longrightarrow> s \<noteq> [] \<Longrightarrow> digit_groups s"
  by (induction s rule: digit_groups.induct) (auto simp: digit_not_sign)

lemma takeWhile_digits:
  "list_all is_digit s \<Longrightarrow> takeWhile (\<lambda>c. is_digit c \<or> c = CHR ''_'') s = s"
  by (simp add: list_all_iff takeWhile_eq_all_conv)

lemma py_int_digits:
  assumes a: "list_all is_digit s" and n: "s \<noteq> []" and l: "length s \<le> max_str_digits"
  shows "py_int s = Inr (int (nat_of_digits s))"
proof -
  from n obtain c r where s: "s = c # r" by (cases s) auto
  with a have "is_digit c" by simp
  then have "unsigned_part s = (False, s)" using s by (simp add: unsigned_part_def digit_not_sign)
  moreover have "filter is_digit s = s" using a by (simp add: list_all_iff)
  ultimately show ?thesis
    using a n l by (simp add: py_int_def strip_digits digit_groups_digits takeWhile_digits)
qed

lemma digit_token: "list_all is_digit s \<Longrightarrow> token_ok s"
  by (auto simp: token_ok_def list_all_iff is_digit_def less_eq_char_def)

lemma split_on_last_token:
  "CHR ''.'' \<notin> set b \<Longrightarrow> ext = [] \<or> hd ext = CHR ''.'' \<Longrightarrow>
   \<exists>rest. split_on CHR ''.'' (b @ ext) = b # rest"
  by (cases ext) (auto simp: split_on_no_sep split_on_append)

lemma split_make_filename:
  assumes "token_ok product" "token_ok tile" "ext = [] \<or> hd ext = CHR ''.''"
  shows "\<exists>rest. split_on CHR ''.'' (make_filename product d tile build @ ext) =
           product # (CHR ''A'' # format_Yj d) # tile # zfill 3 (dec build) # rest"
proof -
  have dt: "CHR ''.'' \<notin> set (CHR ''A'' # format_Yj d)"
    using digit_token [OF zfill_digits [of 4 "year d"]] digit_token [OF zfill_digits [of 3 "yday d"]]
    by (simp add: format_Yj_def token_ok_def)
  have bt: "CHR ''.'' \<notin> set (zfill 3 (dec build))"
    using digit_token [OF zfill_digits [of 3 build]] by (simp add: token_ok_def)
  from split_on_last_token [OF bt assms(3)] obtain rest
    where r: "split_on CHR ''.'' (zfill 3 (dec build) @ ext) = zfill 3 (dec build) # rest" ..
  have p: "CHR ''.'' \<notin> set product" and t: "CHR ''.'' \<notin> set tile"
    using assms by (simp_all add: token_ok_def)
  let ?r3 = "zfill 3 (dec build) @ ext"
  let ?r2 = "tile @ CHR ''.'' # ?r3"
  let ?r1 = "(CHR ''A'' # format_Yj d) @ CHR ''.'' # ?r2"
  have "make_filename product d tile build @ ext = product @ CHR ''.'' # ?r1"
    by (simp add: make_filename_def)
  then have "split_on CHR ''.'' (make_filename product d tile build @ ext) =
          product # (CHR ''A'' # format_Yj d) # tile # zfill 3 (dec build) # rest"
    using split_on_append [OF p, of ?r1] split_on_append [OF dt, of ?r2]
      split_on_append [OF t, of ?r3] r by simp
  then show ?thesis ..
qed

text \<open>
  Claim C4. A filename built from a product token, a valid calendar date, a tile token
  and a build number of at most 4300 digits (the longest \<open>int\<close> converts), below any
  directory and before any further dot-separated suffix, parses back to exactly these
  four values.
\<close>

theorem filename_roundtrip:
  assumes "token_ok product" and "token_ok tile" and "valid_date d"
    and "dir = [] \<or> last dir = CHR ''/''"
    and "ext = [] \<or> (hd ext = CHR ''.'' \<and> CHR ''/'' \<notin> set ext)"
    and "build < 10 ^ max_str_digits"
  shows "parse_VIIRS_product (dir @ make_filename product d tile build @ ext) = Inr product \<and>
         parse_VIIRS_date (dir @ make_filename product d tile build @ ext) = Inr d \<and>
         parse_VIIRS_tile (dir @ make_filename product d tile build @ ext) = Inr tile \<and>
         parse_VIIRS_build (dir @ make_filename product d tile build @ ext) = Inr (int build)"
proof -
  let ?name = "make_filename product d tile build @ ext"
  have dt: "token_ok (format_Yj d)"
    using zfill_digits [of 4 "year d"] zfill_digits [of 3 "yday d"]
    by (intro digit_token) (simp add: format_Yj_def)
  have bt: "token_ok (zfill 3 (dec build))" by (intro digit_token zfill_digits)
  have "CHR ''/'' \<notin> set ?name"
    using assms(1,2,5) dt bt by (auto simp: make_filename_def token_ok_def)
  then have base: "basename (dir @ ?name) = ?name" using assms(4) by (rule basename_append)
  from assms(5) have "ext = [] \<or> hd ext = CHR ''.''" by auto
  from split_make_filename [OF assms(1,2) this] obtain rest
    where sp: "split_on CHR ''.'' ?name =
                 product # (CHR ''A'' # format_Yj d) # tile # zfill 3 (dec build) # rest" by blast
  have ne: "zfill 3 (dec build) \<noteq> []" by (simp add: zfill_def dec_nonempty)
  have "0 < max_str_digits" "3 \<le> max_str_digits" by (simp_all add: max_str_digits_def)
  moreover from assms(6) this(1) have "length (dec build) \<le> max_str_digits" by (rule length_dec)
  ultimately have "length (zfill 3 (dec build)) \<le> max_str_digits" by (simp add: zfill_def)
  from py_int_digits [OF zfill_digits ne this]
  have b: "py_int (zfill 3 (dec build)) = Inr (int build)" by (simp add: nat_of_digits_zfill)
  show ?thesis
    using strptime_format [OF assms(3)] b
    by (simp add: parse_VIIRS_product_def parse_VIIRS_date_def parse_VIIRS_tile_def
        parse_VIIRS_build_def base sp py_index_def)
qed

text \<open>The spec's end-to-end scenario is an instance.\<close>

theorem filename_roundtrip_witness:
  "parse_VIIRS_product ''VNP.A2020123.h10v05.001.h5'' = Inr ''VNP'' \<and>
   parse_VIIRS_date ''VNP.A2020123.h10v05.001.h5'' = Inr \<lparr>year = 2020, month = 5, day = 2\<rparr> \<and>
   parse_VIIRS_tile ''VNP.A2020123.h10v05.001.h5'' = Inr ''h10v05'' \<and>
   parse_VIIRS_build ''VNP.A2020123.h10v05.001.h5'' = Inr 1"
proof -
  have v: "valid_date \<lparr>year = 2020, month = 5, day = 2\<rparr>"
    by (simp add: valid_date_def month_lengths_def)
  have n: "make_filename ''VNP'' \<lparr>year = 2020, month = 5, day = 2\<rparr> ''h10v05'' 1 = ''VNP.A2020123.h10v05.001''"
    by (simp add: make_filename_def format_Yj_def zfill_def dec.simps yday_def month_lengths_def
        is_leap_def digit_char_def numeral_2_eq_2)
  have "token_ok ''VNP''" "token_ok ''h10v05''" by (simp_all add: token_ok_def)
  moreover have "(1::nat) < 10 ^ max_str_digits"
    by (rule one_less_power) (simp_all add: max_str_digits_def)
  ultimately show ?thesis
    using filename_roundtrip [OF _ _ v, of "''VNP''" "''h10v05''" "[]" "''.h5''" 1] n by simp
qed






















section \<open>Properties of the temporal window\<close>

lemma month_length_le: "k < 12 \<Longrightarrow> month_lengths y ! k \<le> 31"
proof -
  assume "k < 12"
  then have "month_lengths y ! k \<in> set (month_lengths y)"
    by (intro nth_mem) (simp add: length_month_lengths)
  then show ?thesis by (auto simp: month_lengths_def split: if_splits)
qed

lemma length2E: "length xs = 2 \<Longrightarrow> \<exists>a b. xs = [a, b]"
  by (cases xs; cases "tl xs") auto

lemma length4E: "length xs = 4 \<Longrightarrow> \<exists>a b c d. xs = [a, b, c, d]"
  by (auto simp: numeral_eq_Suc length_Suc_conv)

lemma two_digits:
  assumes "n < 100"
  obtains a b where "zfill 2 (dec n) = [a, b]" "is_digit a" "is_digit b"
    "nat_of_digits [a, b] = n"
proof -
  from assms have "n < 10 ^ 2" by simp
  then have "length (zfill 2 (dec n)) = 2" using length_dec [of n 2] by (simp add: length_zfill)
  then obtain a b where ab: "zfill 2 (dec n) = [a, b]" using length2E by blast
  moreover from zfill_digits [of 2 n] ab have "is_digit a" "is_digit b" by simp_all
  moreover from nat_of_digits_zfill [of 2 n] ab have "nat_of_digits [a, b] = n" by simp
  ultimately show ?thesis using that by blast
qed

lemma iso_parse_iso8601:
  assumes v: "valid_date d" and t: "h < 24" "m < 60" "s < 60"
  shows "iso_parse (iso8601_utc d h m s) = Inr (at_utc d h m s)"
proof -
  from v have y: "year d < 10 ^ 4" and mo: "month d < 100" "month d - 1 < 12"
    by (auto simp: valid_date_def)
  from v month_length_le [OF mo(2), of "year d"] have dd: "day d < 100"
    by (simp add: valid_date_def)
  have "length (zfill 4 (dec (year d))) = 4" using length_dec [OF y] by (simp add: length_zfill)
  then obtain y1 y2 y3 y4 where Y: "zfill 4 (dec (year d)) = [y1, y2, y3, y4]"
    using length4E by blast
  have ny: "nat_of_digits [y1, y2, y3, y4] = year d"
    using nat_of_digits_zfill [of 4 "year d"] by (simp add: Y)
  have dy: "list_all is_digit [y1, y2, y3, y4]"
    using zfill_digits [of 4 "year d"] by (simp add: Y)
  obtain m1 m2 where M: "zfill 2 (dec (month d)) = [m1, m2]" "is_digit m1" "is_digit m2"
    "nat_of_digits [m1, m2] = month d" using two_digits [OF mo(1)] by blast
  obtain d1 d2 where D: "zfill 2 (dec (day d)) = [d1, d2]" "is_digit d1" "is_digit d2"
    "nat_of_digits [d1, d2] = day d" using two_digits [OF dd] by blast
  from t have "h < 100" "m < 100" "s < 100" by simp_all
  then obtain h1 h2 i1 i2 s1 s2 where
    H: "zfill 2 (dec h) = [h1, h2]" "is_digit h1" "is_digit h2" "nat_of_digits [h1, h2] = h" and
    I: "zfill 2 (dec m) = [i1, i2]" "is_digit i1" "is_digit i2" "nat_of_digits [i1, i2] = m" and
    S: "zfill 2 (dec s) = [s1, s2]" "is_digit s1" "is_digit s2" "nat_of_digits [s1, s2] = s"
    using two_digits [of h] two_digits [of m] two_digits [of s] by metis
  have str: "iso8601_utc d h m s =
      [y1, y2, y3, y4, CHR ''-'', m1, m2, CHR ''-'', d1, d2, CHR ''T'',
       h1, h2, CHR '':'', i1, i2, CHR '':'', s1, s2, CHR ''Z'']"
    by (simp add: iso8601_utc_def Y M(1) D(1) H(1) I(1) S(1))
  have rd: "\<lparr>year = year d, month = month d, day = day d\<rparr> = d" by simp
  show ?thesis
    unfolding str iso_parse_def
    using dy M(2,3) D(2,3) H(2,3) I(2,3) S(2,3) v t
    by (simp add: ny M(4) D(4) H(4) I(4) S(4) rd)
qed

lemma parse_standin_ok: "parses_iso_utc (parse_standin this_year)"
  by (simp add: parses_iso_utc_def parse_standin_def iso_parse_iso8601)

lemma length_dec_ge: "10 ^ k \<le> n \<Longrightarrow> k < length (dec n)"
proof (induction n arbitrary: k rule: dec.induct)
  case (1 n)
  show ?case
  proof (cases "n < 10")
    case True
    have "k = 0"
    proof (rule ccontr)
      assume "k \<noteq> 0"
      then have "(10::nat) ^ 1 \<le> 10 ^ k" by (intro power_increasing) simp_all
      with 1(2) True show False by simp
    qed
    then show ?thesis by (subst dec.simps) simp
  next
    case False
    show ?thesis
    proof (cases k)
      case 0
      then show ?thesis by (subst dec.simps) simp
    next
      case (Suc k')
      with 1(2) have "10 ^ k' \<le> n div 10" by simp
      from 1(1) [OF False this] Suc False show ?thesis by (subst dec.simps) simp
    qed
  qed
qed

lemma zfill_four_digit_year: "1000 \<le> y \<Longrightarrow> zfill 4 (dec y) = dec y"
  using length_dec_ge [of 3 y] by (simp add: zfill_def)

lemma strftime_ymd_iso:
  assumes "1000 \<le> year d"
  shows "strftime_ymd d @ ''T00:00:00Z'' = iso8601_utc d 0 0 0"
    and "strftime_ymd d @ ''T23:59:59Z'' = iso8601_utc d 23 59 59"
  using zfill_four_digit_year [OF assms]
  by (simp_all add: strftime_ymd_def iso8601_utc_def zfill_def dec.simps digit_char_def)



lemma parse_standin_example:
  "parse_standin 2026 ''2021-01-01T13:45:10Z''
     = Inr (at_utc \<lparr>year = 2021, month = 1, day = 1\<rparr> 13 45 10)"
  by (simp add: parse_standin_def iso_parse_def is_digit_def nat_of_digits_def digit_val_def
      valid_date_def month_lengths_def)


section \<open>Properties of the catalog query\<close>

lemma build_query_example:
  "build_query (parse_standin 2026) shoelace_ccw (\<lambda>q. None) ''C123'' (Str ''2021-01-01T13:45:10Z'')
     (Str ''2021-01-01T13:45:10Z'') (Some (Point 10 20)) None =
   Inr \<lparr>concept_id = ''C123'',
        temporal = Some (at_utc \<lparr>year = 2021, month = 1, day = 1\<rparr> 0 0 0,
                         at_utc \<lparr>year = 2021, month = 1, day = 1\<rparr> 23 59 59),
        point = Some (10, 20), polygon = None, readable_granule_name = None\<rparr>"
proof -
  have "parse_standin 2026 (iso8601_utc \<lparr>year = 2021, month = 1, day = 1\<rparr> 0 0 0)
          = Inr (at_utc \<lparr>year = 2021, month = 1, day = 1\<rparr> 0 0 0)"
    and "parse_standin 2026 (iso8601_utc \<lparr>year = 2021, month = 1, day = 1\<rparr> 23 59 59)
          = Inr (at_utc \<lparr>year = 2021, month = 1, day = 1\<rparr> 23 59 59)"
    using parse_standin_ok [of 2026]
    by (simp_all add: parses_iso_utc_def valid_date_def month_lengths_def)
  then have "parse_standin 2026 (strftime_ymd \<lparr>year = 2021, month = 1, day = 1\<rparr> @ ''T00:00:00Z'')
          = Inr (at_utc \<lparr>year = 2021, month = 1, day = 1\<rparr> 0 0 0)"
    and "parse_standin 2026 (strftime_ymd \<lparr>year = 2021, month = 1, day = 1\<rparr> @ ''T23:59:59Z'')
          = Inr (at_utc \<lparr>year = 2021, month = 1, day = 1\<rparr> 23 59 59)"
    by (simp_all add: strftime_ymd_iso)
  then show ?thesis
    by (simp add: build_query_def builder_call_def earliest_datetime_def latest_datetime_def
        parse_standin_example at_utc_def)
qed

text \<open>
  Claim C5. Once the request is built (the dates parsed, every builder call
  accepted), a failure of the transport that is an
  \<open>Exception\<close> leaves the query as \<open>CMRServerUnreachable\<close> wrapping that failure,
  whatever the failure is; the caller gets no other error from the transport call.
\<close>

theorem transport_failure_wrapped:
  assumes "build_query parse is_ccw accept concept_ID start_date end_date target_geometry tile = Inr query"
    and "get query = Inl cause"
    and "is_Exception cause"
  shows "VIIRS_CMR_query parse is_ccw accept get concept_ID start_date end_date target_geometry tile
           = Inl (CMRServerUnreachable cause)"
  using assms by (simp add: VIIRS_CMR_query_def)

theorem transport_failure_wrapped_witness:
  "VIIRS_CMR_query (parse_standin 2026) shoelace_ccw (\<lambda>q. None)
     (\<lambda>q. Inl (OtherException ''connection reset''))
     ''C123'' (Str ''2021-01-01T13:45:10Z'') (Str ''2021-01-01T13:45:10Z'')
     (Some (Point 10 20)) None
   = Inl (CMRServerUnreachable (OtherException ''connection reset''))"
  by (rule transport_failure_wrapped [OF build_query_example]) simp_all



















section \<open>Properties of the granule decoder\<close>

lemma with_file_handles: "open_handles (snd (with_file path body w)) = open_handles w"
  by (simp add: with_file_def h5_open_def h5_close_def split: option.splits)

lemma with_file_files: "files (snd (with_file path body w)) = files w"
  by (simp add: with_file_def h5_open_def h5_close_def split: option.splits)

lemma DN_handles: "open_handles (snd (DN env self variable grid geom w)) = open_handles w"
  using with_file_handles [of "filename_absolute env self" "read_dataset env self variable grid" w]
  by (auto simp: DN_def split: prod.splits sum.splits option.splits)

lemma attributes_handles:
  "open_handles (snd (attributes env self variable grid w)) = open_handles w"
  by (simp add: attributes_def with_file_handles)

lemma layer_handles:
  "open_handles (snd (layer env self variable grid f s b lo hi geom w)) = open_handles w"
  using DN_handles [of env self variable grid geom w]
    attributes_handles [of env self variable grid "snd (DN env self variable grid geom w)"]
  by (auto simp: layer_def split: prod.splits sum.splits)

lemma fill_handles:
  "open_handles (snd (fill env self variable grid f geom w)) = open_handles w"
  using DN_handles [of env self variable grid geom w]
    attributes_handles [of env self variable grid "snd (DN env self variable grid geom w)"]
  by (auto simp: fill_def split: prod.splits sum.splits)

text \<open>
  Claim C9. Each operation of the decoder that touches the file leaves the open
  handles as it found them, whether it returns a value or an error: the handle a
  call opens is released before the call is left. The decoder object is not changed
  by any operation (none returns one), and it has no field for a handle.
\<close>

theorem file_released_on_every_path:
  "open_handles (snd (grids env self w)) = open_handles w \<and>
   open_handles (snd (variables env self grid w)) = open_handles w \<and>
   open_handles (snd (DN env self variable grid geom w)) = open_handles w \<and>
   open_handles (snd (attributes env self variable grid w)) = open_handles w \<and>
   open_handles (snd (layer env self variable grid f s b lo hi geom w)) = open_handles w \<and>
   open_handles (snd (fill env self variable grid f geom w)) = open_handles w"
  by (simp add: grids_def variables_def with_file_handles DN_handles attributes_handles
      layer_handles fill_handles)

lemma discover_explicit: "discover (Some v) a convert = Inr (Some v)"
  by (simp add: discover_def)

lemma discover_absent: "discover None None convert = Inr None"
  by (simp add: discover_def)

lemma discover_effective:
  "discover explicit a convert = Inr p \<Longrightarrow>
   p = effective explicit (case a of None \<Rightarrow> None
                            | Some x \<Rightarrow> (case convert x of Inl e \<Rightarrow> None | Inr v \<Rightarrow> Some v))"
  by (auto simp: discover_def effective_def split: option.splits sum.splits)

lemma discover_runs:
  "discover explicit a convert = Inr p \<Longrightarrow> (p \<noteq> None) = (explicit \<noteq> None \<or> a \<noteq> None)"
  by (auto simp: discover_def split: option.splits sum.splits)

lemma layer_steps_calibrate:
  assumes "discover fa (map_of attrs ''_Fillvalue'') py_int_attr = Inr f"
    and "discover la (map_of attrs ''valid_range'') (py_int_attr_at 0) = Inr lo"
    and "discover ha (map_of attrs ''valid_range'') (py_int_attr_at 1) = Inr hi"
    and "discover sa (map_of attrs ''scale_factor'') py_float_attr = Inr sc"
    and "discover ba (map_of attrs ''add_offset'') py_float_attr = Inr off"
  shows "layer_steps r dn attrs fa sa ba la ha = Inr (calibrate r f lo hi sc off dn)"
  using assms
  by (simp add: layer_steps_def calibrate_def stage_fill_def stage_min_def stage_max_def
      stage_scale_def stage_offset_def where_nan_def split: option.splits)

lemma layer_steps_success:
  assumes "layer_steps r dn attrs fa sa ba la ha = Inr out"
  shows "\<exists>f lo hi sc off.
           discover fa (map_of attrs ''_Fillvalue'') py_int_attr = Inr f \<and>
           discover la (map_of attrs ''valid_range'') (py_int_attr_at 0) = Inr lo \<and>
           discover ha (map_of attrs ''valid_range'') (py_int_attr_at 1) = Inr hi \<and>
           discover sa (map_of attrs ''scale_factor'') py_float_attr = Inr sc \<and>
           discover ba (map_of attrs ''add_offset'') py_float_attr = Inr off \<and>
           out = calibrate r f lo hi sc off dn"
proof -
  from assms obtain f where f: "discover fa (map_of attrs ''_Fillvalue'') py_int_attr = Inr f"
    by (cases "discover fa (map_of attrs ''_Fillvalue'') py_int_attr")
       (simp_all add: layer_steps_def)
  from assms f obtain lo where lo: "discover la (map_of attrs ''valid_range'') (py_int_attr_at 0) = Inr lo"
    by (cases "discover la (map_of attrs ''valid_range'') (py_int_attr_at 0)")
       (simp_all add: layer_steps_def)
  from assms f lo obtain hi where hi: "discover ha (map_of attrs ''valid_range'') (py_int_attr_at 1) = Inr hi"
    by (cases "discover ha (map_of attrs ''valid_range'') (py_int_attr_at 1)")
       (simp_all add: layer_steps_def)
  from assms f lo hi obtain sc where sc: "discover sa (map_of attrs ''scale_factor'') py_float_attr = Inr sc"
    by (cases "discover sa (map_of attrs ''scale_factor'') py_float_attr")
       (simp_all add: layer_steps_def)
  from assms f lo hi sc obtain off where off: "discover ba (map_of attrs ''add_offset'') py_float_attr = Inr off"
    by (cases "discover ba (map_of attrs ''add_offset'') py_float_attr")
       (simp_all add: layer_steps_def)
  from layer_steps_calibrate [OF f lo hi sc off, of r dn] assms
  have "out = calibrate r f lo hi sc off dn" by simp
  with f lo hi sc off show ?thesis by blast
qed

lemma fmul_NaN: "fmul r NaN s = NaN"
  by simp

lemma fadd_NaN: "fadd r NaN b = NaN"
  by simp

lemma scale_offset_keep_NaN:
  assumes "i < length (elems m)" and "elems m ! i = NaN"
  shows "elems (stage_offset r off (stage_scale r sc m)) ! i = NaN"
  using assms
  by (cases sc; cases off) (simp_all add: stage_offset_def stage_scale_def map_raster_def)

lemma example_DN:
  "DN example_env example_granule_file ''NDVI'' ''VIIRS_Grid'' None example_world =
     (Inr \<lparr>shape = [1, 5], elems = [Finite 9, Finite 0, Finite 1, Finite 7, Finite 8],
           geometry = ''h10v05''\<rparr>,
      example_world\<lparr>next_handle := 1\<rparr>)"
  by (simp add: DN_def with_file_def h5_open_def h5_close_def read_dataset_def h5_get_def
      parse_VIIRS_tile_def basename_def py_index_def example_env_def example_world_def
      example_file_def example_granule_file_def filename_absolute_def)

lemma example_attributes:
  "attributes example_env example_granule_file ''NDVI'' ''VIIRS_Grid''
     (example_world\<lparr>next_handle := 1\<rparr>) =
     (Inr [(''_Fillvalue'', Array [Finite 9]), (''valid_range'', Array [Finite 1, Finite 7]),
           (''scale_factor'', Scalar (Finite 2)), (''add_offset'', Scalar (Finite 1))],
      example_world\<lparr>next_handle := 2\<rparr>)"
  by (simp add: attributes_def with_file_def h5_open_def h5_close_def h5_get_def
      example_env_def example_world_def example_file_def example_granule_file_def
      filename_absolute_def)

lemma example_discover:
  "discover None (map_of [(''_Fillvalue'', Array [Finite 9]), (''valid_range'', Array [Finite 1, Finite 7]),
           (''scale_factor'', Scalar (Finite 2)), (''add_offset'', Scalar (Finite 1))] ''_Fillvalue'')
     py_int_attr = Inr (Some 9)"
  "discover None (map_of [(''_Fillvalue'', Array [Finite 9]), (''valid_range'', Array [Finite 1, Finite 7]),
           (''scale_factor'', Scalar (Finite 2)), (''add_offset'', Scalar (Finite 1))] ''valid_range'')
     (py_int_attr_at 0) = Inr (Some 1)"
  "discover None (map_of [(''_Fillvalue'', Array [Finite 9]), (''valid_range'', Array [Finite 1, Finite 7]),
           (''scale_factor'', Scalar (Finite 2)), (''add_offset'', Scalar (Finite 1))] ''valid_range'')
     (py_int_attr_at 1) = Inr (Some 7)"
  "discover None (map_of [(''_Fillvalue'', Array [Finite 9]), (''valid_range'', Array [Finite 1, Finite 7]),
           (''scale_factor'', Scalar (Finite 2)), (''add_offset'', Scalar (Finite 1))] ''scale_factor'')
     py_float_attr = Inr (Some (Finite 2))"
  "discover None (map_of [(''_Fillvalue'', Array [Finite 9]), (''valid_range'', Array [Finite 1, Finite 7]),
           (''scale_factor'', Scalar (Finite 2)), (''add_offset'', Scalar (Finite 1))] ''add_offset'')
     py_float_attr = Inr (Some (Finite 1))"
  by (simp_all add: discover_def py_int_attr_def py_int_attr_at_def py_index_def)

lemma calibrate_example:
  assumes "elems dn = map (\<lambda>v. Finite (of_int v)) [fv, vmin - 1, vmin, vmax, vmax + 1]"
    and "rounds_exactly r (of_int vmin * 2)" "rounds_exactly r (of_int vmin * 2 + 1)"
    and "rounds_exactly r (of_int vmax * 2)" "rounds_exactly r (of_int vmax * 2 + 1)"
  shows "elems (calibrate r (Some fv) (Some vmin) (Some vmax) (Some (Finite 2)) (Some (Finite 1)) dn) =
         [NaN, NaN,
          if vmin = fv \<or> vmax < vmin then NaN else Finite (of_int (vmin * 2 + 1)),
          if vmax = fv \<or> vmax < vmin then NaN else Finite (of_int (vmax * 2 + 1)),
          NaN]"
  using assms
  by (simp add: calibrate_def stage_fill_def stage_min_def stage_max_def stage_scale_def
      stage_offset_def map_raster_def rounds_exactly_def)

text \<open>
  Claim C1. Once the two reads have succeeded and every parameter has its value, the
  calibrated layer is the composition of the five stages in the order fill masking,
  masking below the minimum, masking above the maximum, scale, offset. A stage has a
  parameter, and so runs, exactly when the argument is given or the dataset has the
  attribute, and a given argument is the parameter. On the raw values fill,
  minimum - 1, minimum, maximum, maximum + 1 with scale 2 and offset 1, where the
  floating-point unit holds the four results exactly, the fill and the out-of-range
  positions are not-a-number and an in-range value \<open>v\<close> other than the fill becomes
  \<open>v * 2 + 1\<close>.
\<close>

theorem layer_stage_order:
  assumes "DN env self variable grid geom w = (Inr dn, w1)"
    and "attributes env self variable grid w1 = (Inr attrs, w2)"
    and "discover fa (map_of attrs ''_Fillvalue'') py_int_attr = Inr f"
    and "discover la (map_of attrs ''valid_range'') (py_int_attr_at 0) = Inr lo"
    and "discover ha (map_of attrs ''valid_range'') (py_int_attr_at 1) = Inr hi"
    and "discover sa (map_of attrs ''scale_factor'') py_float_attr = Inr sc"
    and "discover ba (map_of attrs ''add_offset'') py_float_attr = Inr off"
  shows "layer env self variable grid fa sa ba la ha geom w
           = (Inr (stage_offset (rnd env) off (stage_scale (rnd env) sc
                (stage_max hi (stage_min lo (stage_fill f dn))))), w2) \<and>
         (f \<noteq> None) = (fa \<noteq> None \<or> map_of attrs ''_Fillvalue'' \<noteq> None) \<and>
         (lo \<noteq> None) = (la \<noteq> None \<or> map_of attrs ''valid_range'' \<noteq> None) \<and>
         (hi \<noteq> None) = (ha \<noteq> None \<or> map_of attrs ''valid_range'' \<noteq> None) \<and>
         (sc \<noteq> None) = (sa \<noteq> None \<or> map_of attrs ''scale_factor'' \<noteq> None) \<and>
         (off \<noteq> None) = (ba \<noteq> None \<or> map_of attrs ''add_offset'' \<noteq> None) \<and>
         (fa \<noteq> None \<longrightarrow> f = fa) \<and> (la \<noteq> None \<longrightarrow> lo = la) \<and> (ha \<noteq> None \<longrightarrow> hi = ha) \<and>
         (sa \<noteq> None \<longrightarrow> sc = sa) \<and> (ba \<noteq> None \<longrightarrow> off = ba) \<and>
         (elems dn = map (\<lambda>v. Finite (of_int v)) [fv, vmin - 1, vmin, vmax, vmax + 1] \<and>
          f = Some fv \<and> lo = Some vmin \<and> hi = Some vmax \<and>
          sc = Some (Finite 2) \<and> off = Some (Finite 1) \<and>
          rounds_exactly (rnd env) (of_int vmin * 2) \<and>
          rounds_exactly (rnd env) (of_int vmin * 2 + 1) \<and>
          rounds_exactly (rnd env) (of_int vmax * 2) \<and>
          rounds_exactly (rnd env) (of_int vmax * 2 + 1) \<longrightarrow>
          elems (stage_offset (rnd env) off (stage_scale (rnd env) sc
                  (stage_max hi (stage_min lo (stage_fill f dn))))) =
            [NaN, NaN,
             if vmin = fv \<or> vmax < vmin then NaN else Finite (of_int (vmin * 2 + 1)),
             if vmax = fv \<or> vmax < vmin then NaN else Finite (of_int (vmax * 2 + 1)),
             NaN])"
proof -
  have run: "layer env self variable grid fa sa ba la ha geom w
      = (Inr (stage_offset (rnd env) off (stage_scale (rnd env) sc
           (stage_max hi (stage_min lo (stage_fill f dn))))), w2)"
    using assms(1,2) layer_steps_calibrate [OF assms(3-7), of "rnd env" dn]
    by (simp add: layer_def calibrate_def)
  have gate: "(f \<noteq> None) = (fa \<noteq> None \<or> map_of attrs ''_Fillvalue'' \<noteq> None)"
    "(lo \<noteq> None) = (la \<noteq> None \<or> map_of attrs ''valid_range'' \<noteq> None)"
    "(hi \<noteq> None) = (ha \<noteq> None \<or> map_of attrs ''valid_range'' \<noteq> None)"
    "(sc \<noteq> None) = (sa \<noteq> None \<or> map_of attrs ''scale_factor'' \<noteq> None)"
    "(off \<noteq> None) = (ba \<noteq> None \<or> map_of attrs ''add_offset'' \<noteq> None)"
    using assms(3-7) by (simp_all only: discover_runs)
  have first: "fa \<noteq> None \<longrightarrow> f = fa" "la \<noteq> None \<longrightarrow> lo = la" "ha \<noteq> None \<longrightarrow> hi = ha"
    "sa \<noteq> None \<longrightarrow> sc = sa" "ba \<noteq> None \<longrightarrow> off = ba"
    using assms(3-7) by (auto simp: discover_def)
  have ex: "elems dn = map (\<lambda>v. Finite (of_int v)) [fv, vmin - 1, vmin, vmax, vmax + 1] \<and>
          f = Some fv \<and> lo = Some vmin \<and> hi = Some vmax \<and>
          sc = Some (Finite 2) \<and> off = Some (Finite 1) \<and>
          rounds_exactly (rnd env) (of_int vmin * 2) \<and>
          rounds_exactly (rnd env) (of_int vmin * 2 + 1) \<and>
          rounds_exactly (rnd env) (of_int vmax * 2) \<and>
          rounds_exactly (rnd env) (of_int vmax * 2 + 1) \<longrightarrow>
          elems (stage_offset (rnd env) off (stage_scale (rnd env) sc
                  (stage_max hi (stage_min lo (stage_fill f dn))))) =
            [NaN, NaN,
             if vmin = fv \<or> vmax < vmin then NaN else Finite (of_int (vmin * 2 + 1)),
             if vmax = fv \<or> vmax < vmin then NaN else Finite (of_int (vmax * 2 + 1)),
             NaN]"
    using calibrate_example [of dn fv vmin vmax "rnd env"] by (auto simp: calibrate_def)
  from run gate first ex show ?thesis by blast
qed

theorem layer_stage_order_witness:
  "layer example_env example_granule_file ''NDVI'' ''VIIRS_Grid'' None None None None None None
     example_world
   = (Inr \<lparr>shape = [1, 5], elems = [NaN, NaN, Finite 3, Finite 15, NaN], geometry = ''h10v05''\<rparr>,
      example_world\<lparr>next_handle := 2\<rparr>)"
proof -
  note t = layer_stage_order [OF example_DN example_attributes example_discover, of 9 1 7]
  have r: "rounds_exactly (rnd example_env) x" for x
    by (simp add: rounds_exactly_def example_env_def)
  from t r have "elems (stage_offset (rnd example_env) (Some (Finite 1))
                  (stage_scale (rnd example_env) (Some (Finite 2))
                  (stage_max (Some 7) (stage_min (Some 1) (stage_fill (Some 9)
                     \<lparr>shape = [1, 5], elems = [Finite 9, Finite 0, Finite 1, Finite 7, Finite 8],
                      geometry = ''h10v05''\<rparr>))))) = [NaN, NaN, Finite 3, Finite 15, NaN]"
    by simp
  moreover have "shape (stage_offset (rnd example_env) (Some (Finite 1))
                  (stage_scale (rnd example_env) (Some (Finite 2))
                  (stage_max (Some 7) (stage_min (Some 1) (stage_fill (Some 9)
                     \<lparr>shape = [1, 5], elems = [Finite 9, Finite 0, Finite 1, Finite 7, Finite 8],
                      geometry = ''h10v05''\<rparr>))))) = [1, 5]"
    and "geometry (stage_offset (rnd example_env) (Some (Finite 1))
                  (stage_scale (rnd example_env) (Some (Finite 2))
                  (stage_max (Some 7) (stage_min (Some 1) (stage_fill (Some 9)
                     \<lparr>shape = [1, 5], elems = [Finite 9, Finite 0, Finite 1, Finite 7, Finite 8],
                      geometry = ''h10v05''\<rparr>))))) = ''h10v05''"
    by (simp_all add: stage_offset_def stage_scale_def stage_max_def stage_min_def stage_fill_def
        map_raster_def)
  ultimately have "stage_offset (rnd example_env) (Some (Finite 1))
                  (stage_scale (rnd example_env) (Some (Finite 2))
                  (stage_max (Some 7) (stage_min (Some 1) (stage_fill (Some 9)
                     \<lparr>shape = [1, 5], elems = [Finite 9, Finite 0, Finite 1, Finite 7, Finite 8],
                      geometry = ''h10v05''\<rparr>))))
      = \<lparr>shape = [1, 5], elems = [NaN, NaN, Finite 3, Finite 15, NaN], geometry = ''h10v05''\<rparr>"
    by (intro raster.equality) simp_all
  with t show ?thesis by simp
qed

text \<open>
  Claim C10. In a call of the calibrated layer that returns, a pixel that is
  not-a-number after the fill and valid-range stages is not-a-number in the result:
  neither the multiplication by the scale nor the addition of the offset gives it a
  value, whatever the scale, the offset and the rounding are.
\<close>

theorem masked_pixels_stay_masked:
  assumes "DN env self variable grid geom w = (Inr dn, w1)"
    and "attributes env self variable grid w1 = (Inr attrs, w2)"
    and "layer env self variable grid fa sa ba la ha geom w = (Inr out, w3)"
    and "discover fa (map_of attrs ''_Fillvalue'') py_int_attr = Inr f"
    and "discover la (map_of attrs ''valid_range'') (py_int_attr_at 0) = Inr lo"
    and "discover ha (map_of attrs ''valid_range'') (py_int_attr_at 1) = Inr hi"
    and "i < length (elems dn)"
    and "elems (stage_max hi (stage_min lo (stage_fill f dn))) ! i = NaN"
  shows "elems out ! i = NaN"
proof -
  from assms(1-3) have "layer_steps (rnd env) dn attrs fa sa ba la ha = Inr out"
    by (simp add: layer_def)
  from layer_steps_success [OF this] assms(4-6) obtain sc off where
    out: "out = calibrate (rnd env) f lo hi sc off dn" by auto
  let ?m = "stage_max hi (stage_min lo (stage_fill f dn))"
  have "length (elems ?m) = length (elems dn)"
    by (cases f; cases lo; cases hi)
       (simp_all add: stage_max_def stage_min_def stage_fill_def map_raster_def)
  with assms(7) have "i < length (elems ?m)" by simp
  from scale_offset_keep_NaN [OF this assms(8)] out show ?thesis by (simp add: calibrate_def)
qed

lemma example_layer:
  "layer example_env example_granule_file ''NDVI'' ''VIIRS_Grid'' None None None None None None
     example_world
   = (Inr (calibrate Finite (Some 9) (Some 1) (Some 7) (Some (Finite 2)) (Some (Finite 1))
        \<lparr>shape = [1, 5], elems = [Finite 9, Finite 0, Finite 1, Finite 7, Finite 8],
         geometry = ''h10v05''\<rparr>),
      example_world\<lparr>next_handle := 2\<rparr>)"
proof -
  have "rnd example_env = Finite" by (simp add: example_env_def)
  then show ?thesis
    unfolding layer_def
    by (simp only: example_DN example_attributes prod.case sum.case
        layer_steps_calibrate [OF example_discover])
qed

theorem masked_pixels_stay_masked_witness:
  "elems (stage_max (Some 7) (stage_min (Some 1) (stage_fill (Some 9)
      \<lparr>shape = [1, 5], elems = [Finite 9, Finite 0, Finite 1, Finite 7, Finite 8],
       geometry = ''h10v05''\<rparr>))) ! 1 = NaN \<and>
   elems (calibrate Finite (Some 9) (Some 1) (Some 7) (Some (Finite 2)) (Some (Finite 1))
      \<lparr>shape = [1, 5], elems = [Finite 9, Finite 0, Finite 1, Finite 7, Finite 8],
       geometry = ''h10v05''\<rparr>) ! 1 = NaN"
proof -
  have m: "elems (stage_max (Some 7) (stage_min (Some 1) (stage_fill (Some 9)
      \<lparr>shape = [1, 5], elems = [Finite 9, Finite 0, Finite 1, Finite 7, Finite 8],
       geometry = ''h10v05''\<rparr>))) ! 1 = NaN"
    by (simp add: stage_max_def stage_min_def stage_fill_def map_raster_def)
  have "elems (calibrate Finite (Some 9) (Some 1) (Some 7) (Some (Finite 2)) (Some (Finite 1))
      \<lparr>shape = [1, 5], elems = [Finite 9, Finite 0, Finite 1, Finite 7, Finite 8],
       geometry = ''h10v05''\<rparr>) ! 1 = NaN"
    by (rule masked_pixels_stay_masked [OF example_DN example_attributes example_layer
          example_discover(1-3) _ m]) simp
  with m show ?thesis by blast
qed





theorem file_released_on_every_path_witness:
  "open_handles (snd (layer example_env example_granule_file ''NDVI'' ''VIIRS_Grid'' None None
     None None None None example_world)) = [] \<and>
   open_handles (snd (grids example_env \<lparr>filename = ''missing.h5'', cloud_mask = None\<rparr>
     example_world)) = [] \<and>
   open_handles (snd (variables example_env example_granule_file ''No_Such_Grid'' example_world)) = []"
  using file_released_on_every_path [of example_env example_granule_file example_world
      "''VIIRS_Grid''" "''NDVI''" None None None None None None]
    file_released_on_every_path [of example_env "\<lparr>filename = ''missing.h5'', cloud_mask = None\<rparr>"
      example_world "''VIIRS_Grid''" "''NDVI''" None None None None None None]
    file_released_on_every_path [of example_env example_granule_file example_world
      "''No_Such_Grid''" "''NDVI''" None None None None None None]
  by (simp add: example_world_def)

end
